theory Spec2Isabelle
  imports Complex_Main "HOL-Library.Monad_Syntax"
begin

section \<open>Data model (internal/domain/models)\<close>

text \<open>
  A \<open>uuid.UUID\<close> is represented by its canonical textual form, so \<open>String()\<close> is the
  identity; \<open>uuid.Nil\<close> is the all-zero identifier. A \<open>time.Time\<close> is the number of
  seconds since the Unix epoch (the resolution of a ClickHouse \<open>DateTime\<close>); Go's zero
  time is January 1 of year 1, UTC. \<open>Int64\<close> columns are integers, with the wrap-around of
  a sum written out (\<open>wrap64\<close>); \<open>Float64\<close> columns are real numbers, rounding is not
  modelled.
\<close>

type_synonym uuid = string
type_synonym time = int

definition uuid_Nil :: uuid where
  "uuid_Nil = ''00000000-0000-0000-0000-000000000000''"

definition zero_time :: time where
  "zero_time = - 62135596800"

definition IsZero :: "time \<Rightarrow> bool" where
  "IsZero t \<longleftrightarrow> t = zero_time"

record CampaignEvent =
  ID :: uuid
  CampaignID :: uuid
  Platform :: string
  EventType :: string
  Impressions :: int
  Clicks :: int
  Conversions :: int
  Spend :: real
  Revenue :: real
  EventTime :: time
  Region :: string
  Currency :: string
  DeduplicationKey :: string
  ReceivedAt :: time
  ProcessedAt :: time

text \<open>A row of the table \<open>campaign_insights\<close>; the fields carry the column names.\<close>

record insight_row =
  campaign_id :: uuid
  date :: int
  platform :: string
  region :: string
  impressions :: int
  clicks :: int
  conversions :: int
  spend :: real
  revenue :: real
  ctr :: real
  cpc :: real
  cpa :: real
  roas :: real
  conversion_rate :: real
  updated_at :: time

record CampaignInsightsParams =
  p_CampaignID :: uuid
  StartDate :: time
  EndDate :: time
  p_Platform :: "string option"
  p_Region :: "string option"
  Granularity :: string

section \<open>Event validation (EventProcessor.validateEvent)\<close>

datatype error =
    ErrMissingCampaignID
  | ErrMissingPlatform
  | ErrMissingEventTime
  | ErrMissingDeduplicationKey
  | ErrUnmarshal
  | ErrDatabase
  | ErrRedis
  | ErrRedisNil
  | ErrDivisionByZero

text \<open>
  \<open>validateEvent\<close> mutates the event through a pointer and returns an error; the model
  returns the error or the mutated event. Each conditional assignment of the source
  (\<open>if event.Clicks < 0 { event.Clicks = 0 }\<close>) is the update of that one field.
  \<open>fresh\<close> is the identifier \<open>uuid.New()\<close> would return and \<open>now\<close> the reading of
  \<open>time.Now()\<close>.
\<close>

definition validateEvent :: "uuid \<Rightarrow> time \<Rightarrow> CampaignEvent \<Rightarrow> error + CampaignEvent" where
  "validateEvent fresh now event0 =
    (let event = event0\<lparr>ID := (if ID event0 = uuid_Nil then fresh else ID event0)\<rparr> in
     if CampaignID event = uuid_Nil then Inl ErrMissingCampaignID
     else if Platform event = [] then Inl ErrMissingPlatform
     else if IsZero (EventTime event) then Inl ErrMissingEventTime
     else if DeduplicationKey event = [] then Inl ErrMissingDeduplicationKey
     else Inr (event
       \<lparr>Impressions := (if Impressions event < 0 then 0 else Impressions event),
        Clicks := (if Clicks event < 0 then 0 else Clicks event),
        Conversions := (if Conversions event < 0 then 0 else Conversions event),
        Spend := (if Spend event < 0 then 0 else Spend event),
        Revenue := (if Revenue event < 0 then 0 else Revenue event),
        EventType := (if EventType event = [] then ''stats'' else EventType event),
        Region := (if Region event = [] then ''all'' else Region event),
        Currency := (if Currency event = [] then ''USD'' else Currency event),
        ReceivedAt := (if IsZero (ReceivedAt event) then now else ReceivedAt event)\<rparr>))"

section \<open>ClickHouse schema (ClickHouseClient.InitSchema)\<close>

text \<open>
  Both tables use the engine \<open>ReplacingMergeTree(version)\<close>: an \<open>INSERT\<close> appends rows,
  and a merge keeps, for every value of the sorting key, the row with the greatest
  version, the one inserted last among equals. A table is the list of the rows inserted
  so far, oldest first; \<open>replacing_merge\<close> is the table after a complete merge (what
  \<open>FINAL\<close> reads).
\<close>

fun upsert :: "('r \<Rightarrow> 'k) \<Rightarrow> ('r \<Rightarrow> time) \<Rightarrow> 'r \<Rightarrow> 'r list \<Rightarrow> 'r list" where
  "upsert key ver r [] = [r]"
| "upsert key ver r (x # xs) =
    (if key x = key r then (if ver x \<le> ver r then r else x) # xs
     else x # upsert key ver r xs)"

definition replacing_merge :: "('r \<Rightarrow> 'k) \<Rightarrow> ('r \<Rightarrow> time) \<Rightarrow> 'r list \<Rightarrow> 'r list" where
  "replacing_merge key ver rows = foldl (\<lambda>acc r. upsert key ver r acc) [] rows"

text \<open>\<open>campaign_events\<close>: \<open>ORDER BY (campaign_id, event_time, deduplication_key)\<close>,
  version \<open>processed_at\<close>.\<close>

definition event_key :: "CampaignEvent \<Rightarrow> uuid \<times> time \<times> string" where
  "event_key e = (CampaignID e, EventTime e, DeduplicationKey e)"

definition final_events :: "CampaignEvent list \<Rightarrow> CampaignEvent list" where
  "final_events rows = replacing_merge event_key ProcessedAt rows"

text \<open>\<open>campaign_insights\<close>: \<open>ORDER BY (campaign_id, date, platform, region)\<close>,
  version \<open>updated_at\<close>.\<close>

definition insight_key :: "insight_row \<Rightarrow> uuid \<times> int \<times> string \<times> string" where
  "insight_key r = (campaign_id r, date r, platform r, region r)"

definition final_insights :: "insight_row list \<Rightarrow> insight_row list" where
  "final_insights rows = replacing_merge insight_key updated_at rows"

subsection \<open>The aggregating SELECT\<close>

text \<open>\<open>toDate\<close> of a \<open>DateTime\<close>: the day number, in UTC.\<close>

definition toDate :: "time \<Rightarrow> int" where
  "toDate t = t div 86400"

text \<open>\<open>sum\<close> over an \<open>Int64\<close> column is an \<open>Int64\<close>: it wraps around.\<close>

definition wrap64 :: "int \<Rightarrow> int" where
  "wrap64 x = (x + 2 ^ 63) mod 2 ^ 64 - 2 ^ 63"

definition sum_int64 :: "(CampaignEvent \<Rightarrow> int) \<Rightarrow> CampaignEvent list \<Rightarrow> int" where
  "sum_int64 col rows = wrap64 (sum_list (map col rows))"

definition sum_float64 :: "(CampaignEvent \<Rightarrow> real) \<Rightarrow> CampaignEvent list \<Rightarrow> real" where
  "sum_float64 col rows = sum_list (map col rows)"

text \<open>
  The operator \<open>/\<close>. A division by zero is modelled as a fault (\<open>None\<close>), so that the
  guards \<open>if(sum(d) > 0, n / d, 0)\<close> of the queries have to rule it out; \<open>if\<close> evaluates
  only the branch it selects.
\<close>

definition divide_checked :: "real \<Rightarrow> real \<Rightarrow> real option" where
  "divide_checked a b = (if b = 0 then None else Some (a / b))"

definition group_key :: "CampaignEvent \<Rightarrow> uuid \<times> int \<times> string \<times> string" where
  "group_key e = (CampaignID e, toDate (EventTime e), Platform e, Region e)"

text \<open>\<open>GROUP BY campaign_id, toDate(event_time), platform, region\<close>: the distinct keys
  and, for each, its rows.\<close>

definition group_keys :: "CampaignEvent list \<Rightarrow> (uuid \<times> int \<times> string \<times> string) list" where
  "group_keys rows = remdups (map group_key rows)"

definition group_rows :: "uuid \<times> int \<times> string \<times> string \<Rightarrow> CampaignEvent list \<Rightarrow> CampaignEvent list" where
  "group_rows k rows = filter (\<lambda>e. group_key e = k) rows"

text \<open>The select list of the materialized view \<open>mv_campaign_daily_aggregation\<close>,
  for one group; \<open>now\<close> is the value of \<open>now()\<close>.\<close>

definition mv_select_list ::
  "time \<Rightarrow> uuid \<times> int \<times> string \<times> string \<Rightarrow> CampaignEvent list \<Rightarrow> insight_row option" where
  "mv_select_list now k g =
    (case k of (cid, d, pl, rg) \<Rightarrow> do {
       c1 \<leftarrow> (if sum_int64 Impressions g > 0
              then divide_checked (real_of_int (sum_int64 Clicks g)) (real_of_int (sum_int64 Impressions g))
              else Some 0);
       c2 \<leftarrow> (if sum_int64 Clicks g > 0
              then divide_checked (sum_float64 Spend g) (real_of_int (sum_int64 Clicks g))
              else Some 0);
       c3 \<leftarrow> (if sum_int64 Conversions g > 0
              then divide_checked (sum_float64 Spend g) (real_of_int (sum_int64 Conversions g))
              else Some 0);
       c4 \<leftarrow> (if sum_float64 Spend g > 0
              then divide_checked (sum_float64 Revenue g) (sum_float64 Spend g)
              else Some 0);
       c5 \<leftarrow> (if sum_int64 Clicks g > 0
              then divide_checked (real_of_int (sum_int64 Conversions g)) (real_of_int (sum_int64 Clicks g))
              else Some 0);
       Some \<lparr>campaign_id = cid, date = d, platform = pl, region = rg,
             impressions = sum_int64 Impressions g,
             clicks = sum_int64 Clicks g,
             conversions = sum_int64 Conversions g,
             spend = sum_float64 Spend g,
             revenue = sum_float64 Revenue g,
             ctr = c1, cpc = c2, cpa = c3, roas = c4, conversion_rate = c5,
             updated_at = now\<rparr>
     })"

text \<open>
  A materialized view \<open>TO campaign_insights\<close> is an insert trigger on its source table:
  ClickHouse runs the view's \<open>SELECT\<close> over the block of rows being inserted into
  \<open>campaign_events\<close>, not over the table, and inserts the result into the target.
\<close>

definition mv_campaign_daily_aggregation :: "time \<Rightarrow> CampaignEvent list \<Rightarrow> insight_row list option" where
  "mv_campaign_daily_aggregation now block =
     those (map (\<lambda>k. mv_select_list now k (group_rows k block)) (group_keys block))"

text \<open>
  The select list of the \<open>INSERT INTO campaign_insights SELECT\<close> of
  \<open>TriggerReaggregation\<close>, for one group.
\<close>

definition reaggregation_select_list ::
  "time \<Rightarrow> uuid \<times> int \<times> string \<times> string \<Rightarrow> CampaignEvent list \<Rightarrow> insight_row option" where
  "reaggregation_select_list now k g =
    (case k of (cid, d, pl, rg) \<Rightarrow> do {
       r_ctr \<leftarrow> (if 0 < sum_int64 Impressions g
                 then divide_checked (real_of_int (sum_int64 Clicks g)) (real_of_int (sum_int64 Impressions g))
                 else Some 0);
       r_cpc \<leftarrow> (if 0 < sum_int64 Clicks g
                 then divide_checked (sum_float64 Spend g) (real_of_int (sum_int64 Clicks g))
                 else Some 0);
       r_cpa \<leftarrow> (if 0 < sum_int64 Conversions g
                 then divide_checked (sum_float64 Spend g) (real_of_int (sum_int64 Conversions g))
                 else Some 0);
       r_roas \<leftarrow> (if 0 < sum_float64 Spend g
                  then divide_checked (sum_float64 Revenue g) (sum_float64 Spend g)
                  else Some 0);
       r_rate \<leftarrow> (if 0 < sum_int64 Clicks g
                  then divide_checked (real_of_int (sum_int64 Conversions g)) (real_of_int (sum_int64 Clicks g))
                  else Some 0);
       Some \<lparr>campaign_id = cid, date = d, platform = pl, region = rg,
             impressions = sum_int64 Impressions g,
             clicks = sum_int64 Clicks g,
             conversions = sum_int64 Conversions g,
             spend = sum_float64 Spend g,
             revenue = sum_float64 Revenue g,
             ctr = r_ctr, cpc = r_cpc, cpa = r_cpa, roas = r_roas, conversion_rate = r_rate,
             updated_at = now\<rparr>
     })"

text \<open>\<open>FROM campaign_events WHERE campaign_id = ? AND event_time >= ? AND event_time <= ?
  GROUP BY campaign_id, toDate(event_time), platform, region\<close>. The query reads the
  table as it is stored (no \<open>FINAL\<close>).\<close>

definition reaggregation_where :: "uuid \<Rightarrow> time \<Rightarrow> time \<Rightarrow> CampaignEvent \<Rightarrow> bool" where
  "reaggregation_where cid startDate endDate e \<longleftrightarrow>
     CampaignID e = cid \<and> EventTime e \<ge> startDate \<and> EventTime e \<le> endDate"

definition reaggregation_query ::
  "time \<Rightarrow> uuid \<Rightarrow> time \<Rightarrow> time \<Rightarrow> CampaignEvent list \<Rightarrow> insight_row list option" where
  "reaggregation_query now cid startDate endDate table =
     (let rows = filter (reaggregation_where cid startDate endDate) table
      in those (map (\<lambda>k. reaggregation_select_list now k (group_rows k rows)) (group_keys rows)))"

section \<open>Redis client (redis.Client)\<close>

text \<open>
  A Redis value is a byte string. \<open>Encoded rows\<close> stands for the bytes
  \<open>json.Marshal\<close> produces for a list of insights, which \<open>json.Unmarshal\<close> reads back;
  \<open>Raw\<close> is any other payload, such as the marker \<open>"1"\<close> of a deduplication key, which
  does not decode to a list of insights. Expiry is not modelled.
\<close>

datatype redis_value = Raw string | Encoded "insight_row list"

type_synonym redis_store = "(string \<times> redis_value) list"

definition redis_set :: "string \<Rightarrow> redis_value \<Rightarrow> redis_store \<Rightarrow> redis_store" where
  "redis_set k v r = (k, v) # filter (\<lambda>kv. fst kv \<noteq> k) r"

definition redis_del :: "string list \<Rightarrow> redis_store \<Rightarrow> redis_store" where
  "redis_del ks r = filter (\<lambda>kv. fst kv \<notin> set ks) r"

text \<open>\<open>KEYS prefix*\<close>\<close>

definition redis_keys :: "string \<Rightarrow> redis_store \<Rightarrow> string list" where
  "redis_keys pre r = filter (\<lambda>k. take (length pre) k = pre) (map fst r)"

text \<open>Every call of the client takes a flag \<open>fails\<close>: whether Redis answers with an
  error.\<close>

definition GetObject :: "bool \<Rightarrow> redis_store \<Rightarrow> string \<Rightarrow> error + insight_row list" where
  "GetObject fails r key =
     (if fails then Inl ErrRedis
      else case map_of r key of
             None \<Rightarrow> Inl ErrRedisNil
           | Some (Raw _) \<Rightarrow> Inl ErrUnmarshal
           | Some (Encoded rows) \<Rightarrow> Inr rows)"

definition Set :: "bool \<Rightarrow> redis_store \<Rightarrow> string \<Rightarrow> insight_row list \<Rightarrow> error option \<times> redis_store" where
  "Set fails r key rows =
     (if fails then (Some ErrRedis, r) else (None, redis_set key (Encoded rows) r))"

definition IsDeduplicationKeyProcessed :: "bool \<Rightarrow> redis_store \<Rightarrow> string \<Rightarrow> bool \<times> error option" where
  "IsDeduplicationKeyProcessed fails r key =
     (if fails then (False, Some ErrRedis)
      else (map_of r (''dedup:'' @ key) \<noteq> None, None))"

definition MarkDeduplicationKeyProcessed :: "bool \<Rightarrow> redis_store \<Rightarrow> string \<Rightarrow> error option \<times> redis_store" where
  "MarkDeduplicationKeyProcessed fails r key =
     (if fails then (Some ErrRedis, r) else (None, redis_set (''dedup:'' @ key) (Raw ''1'') r))"

section \<open>The state of the stores\<close>

record system =
  campaign_events :: "CampaignEvent list"
  campaign_insights :: "insight_row list"
  redis :: redis_store

text \<open>
  ClickHouse merges the parts of a table in the background, at a time of its choosing,
  and no statement of the program waits for it. \<open>merge_campaign_events\<close> is the state
  after a complete merge of \<open>campaign_events\<close>; a merge inserts nothing and fires no
  materialized view.
\<close>

definition merge_campaign_events :: "system \<Rightarrow> system" where
  "merge_campaign_events s = s\<lparr>campaign_events := final_events (campaign_events s)\<rparr>"

section \<open>Event processing (EventProcessor)\<close>

text \<open>
  \<open>storeEvent\<close> inserts one row into \<open>campaign_events\<close>; the insert fires the
  materialized view on that one-row block. \<open>ok\<close> is whether ClickHouse accepts the
  statement, \<open>ch_now\<close> the value of its \<open>now()\<close>.
\<close>

definition storeEvent :: "bool \<Rightarrow> time \<Rightarrow> system \<Rightarrow> CampaignEvent \<Rightarrow> error + system" where
  "storeEvent ok ch_now s event =
     (if \<not> ok then Inl ErrDatabase
      else case mv_campaign_daily_aggregation ch_now [event] of
             None \<Rightarrow> Inl ErrDivisionByZero
           | Some rows \<Rightarrow>
               Inr (s\<lparr>campaign_events := campaign_events s @ [event],
                      campaign_insights := campaign_insights s @ rows\<rparr>))"

text \<open>What the environment answers during one call of \<open>ProcessEvent\<close>.\<close>

record process_env =
  check_fails :: bool
  fresh_id :: uuid
  validate_now :: time
  processed_now :: time
  store_ok :: bool
  clickhouse_now :: time
  mark_fails :: bool

text \<open>The calls a message causes, in the order they are made.\<close>

datatype step =
    DedupCheck string
  | Validate
  | Append CampaignEvent bool
  | DedupMark string
  | Commit

text \<open>A Kafka message is modelled by what \<open>json.Unmarshal\<close> makes of its value:
  \<open>None\<close> when decoding fails. A field absent from the payload has its zero value.\<close>

type_synonym message = "CampaignEvent option"

definition ProcessEvent :: "process_env \<Rightarrow> system \<Rightarrow> message \<Rightarrow> error option \<times> system \<times> step list" where
  "ProcessEvent env s msg =
    (case msg of
       None \<Rightarrow> (Some ErrUnmarshal, s, [])
     | Some event \<Rightarrow>
        (let (isProcessed, err) =
               IsDeduplicationKeyProcessed (check_fails env) (redis s) (DeduplicationKey event);
             t1 = [DedupCheck (DeduplicationKey event)]
         in if isProcessed then (None, s, t1)
            else case validateEvent (fresh_id env) (validate_now env) event of
                   Inl e \<Rightarrow> (Some e, s, t1 @ [Validate])
                 | Inr event \<Rightarrow>
                    (let event = event\<lparr>ProcessedAt := processed_now env\<rparr>
                     in case storeEvent (store_ok env) (clickhouse_now env) s event of
                          Inl e \<Rightarrow> (Some e, s, t1 @ [Validate, Append event False])
                        | Inr s' \<Rightarrow>
                           (let (err, r') = MarkDeduplicationKeyProcessed (mark_fails env)
                                              (redis s') (DeduplicationKey event)
                            in (None, s'\<lparr>redis := r'\<rparr>,
                                t1 @ [Validate, Append event True,
                                      DedupMark (DeduplicationKey event)])))))"

section \<open>Consumer loop (Worker.Start)\<close>


section \<open>Aggregation service (AggregationService)\<close>

subsection \<open>buildInsightsQuery\<close>

datatype sql_arg = ArgString string | ArgTime time

text \<open>The text of the base query, its white space normalised.\<close>

definition base_query :: string where
  "base_query = ''SELECT campaign_id, date, platform, region, impressions, clicks, conversions, spend, revenue, ctr, cpc, cpa, roas, conversion_rate, updated_at FROM campaign_insights WHERE 1=1''"

definition buildInsightsQuery :: "CampaignInsightsParams \<Rightarrow> string \<times> sql_arg list" where
  "buildInsightsQuery params =
    (let query = base_query; args = [];
         (query, args) = (if p_CampaignID params \<noteq> uuid_Nil
            then (query @ '' AND campaign_id = ?'', args @ [ArgString (p_CampaignID params)])
            else (query, args));
         (query, args) = (if \<not> IsZero (StartDate params)
            then (query @ '' AND date >= ?'', args @ [ArgTime (StartDate params)])
            else (query, args));
         (query, args) = (if \<not> IsZero (EndDate params)
            then (query @ '' AND date <= ?'', args @ [ArgTime (EndDate params)])
            else (query, args));
         (query, args) = (case p_Platform params of
              Some pl \<Rightarrow> (query @ '' AND platform = ?'', args @ [ArgString pl])
            | None \<Rightarrow> (query, args));
         (query, args) = (case p_Region params of
              Some rg \<Rightarrow> (if rg \<noteq> [] then (query @ '' AND region = ?'', args @ [ArgString rg])
                         else (query, args))
            | None \<Rightarrow> (query, args))
     in (query @ '' ORDER BY date ASC'', args))"

text \<open>
  What ClickHouse answers to the query that \<open>buildInsightsQuery\<close> builds: the stored rows
  of \<open>campaign_insights\<close> (no \<open>FINAL\<close>) that pass the filters, by ascending date. A
  \<open>Date\<close> is compared with a \<open>DateTime\<close> argument as the midnight that starts it.
\<close>

definition insights_where :: "CampaignInsightsParams \<Rightarrow> insight_row \<Rightarrow> bool" where
  "insights_where params r \<longleftrightarrow>
     (p_CampaignID params \<noteq> uuid_Nil \<longrightarrow> campaign_id r = p_CampaignID params) \<and>
     (\<not> IsZero (StartDate params) \<longrightarrow> date r * 86400 \<ge> StartDate params) \<and>
     (\<not> IsZero (EndDate params) \<longrightarrow> date r * 86400 \<le> EndDate params) \<and>
     (case p_Platform params of Some pl \<Rightarrow> platform r = pl | None \<Rightarrow> True) \<and>
     (case p_Region params of Some rg \<Rightarrow> rg \<noteq> [] \<longrightarrow> region r = rg | None \<Rightarrow> True)"

definition insights_query :: "CampaignInsightsParams \<Rightarrow> insight_row list \<Rightarrow> insight_row list" where
  "insights_query params table = sort_key date (filter (insights_where params) table)"

subsection \<open>getCacheKey\<close>

text \<open>\<open>Format("2006-01-02")\<close> of a time in UTC, for the years 0 to 9999: the civil
  date of the day number.\<close>

definition civil_from_days :: "int \<Rightarrow> int \<times> int \<times> int" where
  "civil_from_days days =
    (let z = days + 719468;
         era = z div 146097;
         doe = z mod 146097;
         yoe = (doe - doe div 1460 + doe div 36524 - doe div 146096) div 365;
         y = yoe + era * 400;
         doy = doe - (365 * yoe + yoe div 4 - yoe div 100);
         mp = (5 * doy + 2) div 153;
         d = doy - (153 * mp + 2) div 5 + 1;
         m = (if mp < 10 then mp + 3 else mp - 9)
     in (if m \<le> 2 then y + 1 else y, m, d))"

fun digits :: "nat \<Rightarrow> int \<Rightarrow> string" where
  "digits 0 n = []"
| "digits (Suc w) n = digits w (n div 10) @ [''0123456789'' ! nat (n mod 10)]"

definition format_date :: "time \<Rightarrow> string" where
  "format_date t =
     (case civil_from_days (toDate t) of
        (y, m, d) \<Rightarrow> digits 4 y @ ''-'' @ digits 2 m @ ''-'' @ digits 2 d)"

definition getCacheKey :: "CampaignInsightsParams \<Rightarrow> string" where
  "getCacheKey params =
    (let cacheKey = ''insights:'' @ p_CampaignID params @ '':'';
         cacheKey = (if \<not> IsZero (StartDate params)
                     then cacheKey @ ''start:'' @ format_date (StartDate params) @ '':''
                     else cacheKey);
         cacheKey = (if \<not> IsZero (EndDate params)
                     then cacheKey @ ''end:'' @ format_date (EndDate params) @ '':''
                     else cacheKey);
         cacheKey = (case p_Platform params of
                       Some pl \<Rightarrow> cacheKey @ ''platform:'' @ pl @ '':''
                     | None \<Rightarrow> cacheKey);
         cacheKey = (case p_Region params of
                       Some rg \<Rightarrow> cacheKey @ ''region:'' @ rg @ '':''
                     | None \<Rightarrow> cacheKey);
         cacheKey = (if Granularity params \<noteq> []
                     then cacheKey @ ''granularity:'' @ Granularity params @ '':''
                     else cacheKey)
     in cacheKey)"

subsection \<open>GetCampaignInsights\<close>

record query_env =
  get_fails :: bool
  query_ok :: bool
  set_fails :: bool

datatype access = CacheGet string | DbQuery | CacheSet string "insight_row list"

definition GetCampaignInsights ::
  "query_env \<Rightarrow> system \<Rightarrow> CampaignInsightsParams \<Rightarrow> (error + insight_row list) \<times> system \<times> access list" where
  "GetCampaignInsights env s params =
    (let cacheKey = getCacheKey params;
         cached = GetObject (get_fails env) (redis s) cacheKey
     in case cached of
          Inr (x # xs) \<Rightarrow> (Inr (x # xs), s, [CacheGet cacheKey])
        | _ \<Rightarrow>
           (if \<not> query_ok env then (Inl ErrDatabase, s, [CacheGet cacheKey, DbQuery])
            else
             (let insights = insights_query params (campaign_insights s)
              in if length insights > 0
                 then (let (err, r') = Set (set_fails env) (redis s) cacheKey insights
                       in (Inr insights, s\<lparr>redis := r'\<rparr>,
                           [CacheGet cacheKey, DbQuery, CacheSet cacheKey insights]))
                 else (Inr insights, s, [CacheGet cacheKey, DbQuery]))))"

subsection \<open>TriggerReaggregation\<close>

record reaggregation_env =
  exec_ok :: bool
  insert_now :: time
  keys_fails :: bool
  del_fails :: bool

definition TriggerReaggregation ::
  "reaggregation_env \<Rightarrow> system \<Rightarrow> uuid \<Rightarrow> time \<Rightarrow> time \<Rightarrow> error option \<times> system" where
  "TriggerReaggregation env s campaignID startDate endDate =
    (if \<not> exec_ok env then (Some ErrDatabase, s)
     else case reaggregation_query (insert_now env) campaignID startDate endDate (campaign_events s) of
       None \<Rightarrow> (Some ErrDivisionByZero, s)
     | Some rows \<Rightarrow>
        (let s = s\<lparr>campaign_insights := campaign_insights s @ rows\<rparr>;
             cachePattern = ''insights:'' @ campaignID @ '':''
         in if keys_fails env then (None, s)
            else (let keys = redis_keys cachePattern (redis s)
                  in if length keys > 0 \<and> \<not> del_fails env
                     then (None, s\<lparr>redis := redis_del keys (redis s)\<rparr>)
                     else (None, s))))"

section \<open>Orders of the pipeline's steps\<close>



section \<open>Forms used to state the results\<close>

text \<open>The expression \<open>if(d > 0, n / d, 0)\<close> as a total function, and the row that the
  select list of both queries yields for a group once its guards are resolved.\<close>

definition guarded_quotient :: "real \<Rightarrow> real \<Rightarrow> real" where
  "guarded_quotient n d = (if 0 < d then n / d else 0)"

definition bucket_row ::
  "time \<Rightarrow> uuid \<times> int \<times> string \<times> string \<Rightarrow> CampaignEvent list \<Rightarrow> insight_row" where
  "bucket_row now k g =
     \<lparr>campaign_id = fst k, date = fst (snd k), platform = fst (snd (snd k)),
      region = snd (snd (snd k)),
      impressions = sum_int64 Impressions g,
      clicks = sum_int64 Clicks g,
      conversions = sum_int64 Conversions g,
      spend = sum_float64 Spend g,
      revenue = sum_float64 Revenue g,
      ctr = guarded_quotient (real_of_int (sum_int64 Clicks g)) (real_of_int (sum_int64 Impressions g)),
      cpc = guarded_quotient (sum_float64 Spend g) (real_of_int (sum_int64 Clicks g)),
      cpa = guarded_quotient (sum_float64 Spend g) (real_of_int (sum_int64 Conversions g)),
      roas = guarded_quotient (sum_float64 Revenue g) (sum_float64 Spend g),
      conversion_rate = guarded_quotient (real_of_int (sum_int64 Conversions g)) (real_of_int (sum_int64 Clicks g)),
      updated_at = now\<rparr>"

definition aggregate_rows :: "time \<Rightarrow> CampaignEvent list \<Rightarrow> insight_row list" where
  "aggregate_rows now rows = map (\<lambda>k. bucket_row now k (group_rows k rows)) (group_keys rows)"

text \<open>The specification's ratio: the quotient, and 0 when the denominator is 0.\<close>

definition spec_ratio :: "real \<Rightarrow> real \<Rightarrow> real" where
  "spec_ratio n d = (if d = 0 then 0 else n / d)"

text \<open>A row without its \<open>updatedAt\<close>.\<close>

definition without_updated_at :: "insight_row \<Rightarrow> insight_row" where
  "without_updated_at r = r\<lparr>updated_at := 0\<rparr>"

text \<open>Appending events one by one through \<open>storeEvent\<close>, each with the reading of
  ClickHouse's clock at its insert; a failed insert stops the sequence.\<close>

fun store_all :: "system \<Rightarrow> (time \<times> CampaignEvent) list \<Rightarrow> error + system" where
  "store_all s [] = Inr s"
| "store_all s ((ch_now, event) # rest) =
     (case storeEvent True ch_now s event of
        Inl e \<Rightarrow> Inl e
      | Inr s' \<Rightarrow> store_all s' rest)"

section \<open>Example data\<close>

definition campaign_1 :: uuid where
  "campaign_1 = ''6f1c2a9e-3b7d-4e58-9a41-0c5d2e8f7b13''"

text \<open>The two events of the specification's end-to-end scenario, for 2024-01-01, with
  the \<open>processedAt\<close> that \<open>ProcessEvent\<close> stores them with.\<close>

definition scenario_event_1 :: CampaignEvent where
  "scenario_event_1 =
     \<lparr>ID = ''0a4e6c1d-52f7-4b8a-8c39-7d1e5f2a9b60'', CampaignID = campaign_1,
      Platform = ''meta'', EventType = ''daily_stats'', Impressions = 1000, Clicks = 50,
      Conversions = 0, Spend = 50, Revenue = 100, EventTime = 1704067200, Region = ''all'',
      Currency = ''USD'', DeduplicationKey = ''meta:batch-1'', ReceivedAt = 1704153600,
      ProcessedAt = 1704153602\<rparr>"

definition scenario_event_2 :: CampaignEvent where
  "scenario_event_2 =
     \<lparr>ID = ''b93d7e2f-1c64-4a05-9e8b-3f6a0d4c5e71'', CampaignID = campaign_1,
      Platform = ''meta'', EventType = ''daily_stats'', Impressions = 500, Clicks = 25,
      Conversions = 0, Spend = 25, Revenue = 50, EventTime = 1704067200, Region = ''all'',
      Currency = ''USD'', DeduplicationKey = ''meta:batch-2'', ReceivedAt = 1704153600,
      ProcessedAt = 1704153659\<rparr>"

text \<open>A payload that carries neither \<open>campaign_id\<close> nor \<open>platform\<close>.\<close>

definition anonymous_event :: CampaignEvent where
  "anonymous_event = scenario_event_1\<lparr>CampaignID := uuid_Nil, Platform := []\<rparr>"

definition empty_system :: system where
  "empty_system = \<lparr>campaign_events = [], campaign_insights = [], redis = []\<rparr>"

definition calm_env :: process_env where
  "calm_env = \<lparr>check_fails = False, fresh_id = ''c2d8f0a1-7e35-4b96-8d14-5a9e3b6c0f27'',
     validate_now = 1704153601, processed_now = 1704153602, store_ok = True,
     clickhouse_now = 1704153603, mark_fails = False\<rparr>"

text \<open>The query of the scenario: campaign 1 on 2024-01-01, daily.\<close>

definition scenario_params :: CampaignInsightsParams where
  "scenario_params = \<lparr>p_CampaignID = campaign_1, StartDate = 1704067200, EndDate = 1704067200,
     p_Platform = None, p_Region = None, Granularity = ''daily''\<rparr>"

definition weekly_params :: CampaignInsightsParams where
  "weekly_params = scenario_params\<lparr>Granularity := ''weekly''\<rparr>"

definition calm_query_env :: query_env where
  "calm_query_env = \<lparr>get_fails = False, query_ok = True, set_fails = False\<rparr>"

text \<open>Stores without events whose cache holds an empty list under the scenario's key.\<close>

definition system_with_empty_entry :: system where
  "system_with_empty_entry = empty_system\<lparr>redis := [(getCacheKey scenario_params, Encoded [])]\<rparr>"

text \<open>The two scenario events appended one after the other, and the stores after that.\<close>

definition scenario_appends :: "(time \<times> CampaignEvent) list" where
  "scenario_appends = [(1704153603, scenario_event_1), (1704153660, scenario_event_2)]"

definition scenario_row :: "int \<Rightarrow> int \<Rightarrow> real \<Rightarrow> real \<Rightarrow> time \<Rightarrow> insight_row" where
  "scenario_row imp clk spd rvn t =
     \<lparr>campaign_id = campaign_1, date = 19723, platform = ''meta'', region = ''all'',
      impressions = imp, clicks = clk, conversions = 0, spend = spd, revenue = rvn,
      ctr = 1 / 20, cpc = 1, cpa = 0, roas = 2, conversion_rate = 0, updated_at = t\<rparr>"

definition after_scenario_appends :: system where
  "after_scenario_appends =
     \<lparr>campaign_events = [scenario_event_1, scenario_event_2],
      campaign_insights = [scenario_row 1000 50 50 100 1704153603, scenario_row 500 25 25 50 1704153660],
      redis = []\<rparr>"

definition calm_reaggregation_env :: "time \<Rightarrow> reaggregation_env" where
  "calm_reaggregation_env t = \<lparr>exec_ok = True, insert_now = t, keys_fails = False, del_fails = False\<rparr>"

text \<open>The first scenario event as stored at its first delivery, as stored again at a
  redelivery, and as a second fetch of the same day reports it: under the same
  \<open>deduplicationKey\<close>, with a later \<open>eventTime\<close>.\<close>

definition first_delivery :: CampaignEvent where
  "first_delivery = scenario_event_1\<lparr>ProcessedAt := 1704153602\<rparr>"

definition redelivery :: CampaignEvent where
  "redelivery = scenario_event_1\<lparr>ProcessedAt := 1704153700\<rparr>"

definition second_fetch :: CampaignEvent where
  "second_fetch = scenario_event_1\<lparr>EventTime := 1704103200, ProcessedAt := 1704153700\<rparr>"

text \<open>A first delivery whose mark in the Deduplication Store fails, the redelivery of
  the same message, and the stores after both.\<close>

definition lost_mark_env :: process_env where
  "lost_mark_env = calm_env\<lparr>mark_fails := True\<rparr>"

definition redelivery_env :: process_env where
  "redelivery_env = calm_env\<lparr>processed_now := 1704153700, clickhouse_now := 1704153701\<rparr>"

definition after_redelivery :: system where
  "after_redelivery =
     \<lparr>campaign_events = [first_delivery, redelivery],
      campaign_insights = [scenario_row 1000 50 50 100 1704153603, scenario_row 1000 50 50 100 1704153701],
      redis = [(''dedup:meta:batch-1'', Raw ''1'')]\<rparr>"

text \<open>Two requests for the last 30 days of campaign 1 made on 2024-01-01, at 09:00 and
  at 17:30, without explicit dates: the handler fills in the time of the request.\<close>

definition morning_params :: CampaignInsightsParams where
  "morning_params = \<lparr>p_CampaignID = campaign_1, StartDate = 1701507600, EndDate = 1704099600,
     p_Platform = Some ''meta'', p_Region = None, Granularity = ''daily''\<rparr>"

definition evening_params :: CampaignInsightsParams where
  "evening_params = morning_params\<lparr>StartDate := 1701538200, EndDate := 1704130200\<rparr>"

section \<open>Validation and event processing: properties\<close>

lemma validateEvent_cases:
  "(validateEvent f n e = Inl ErrMissingCampaignID \<longleftrightarrow> CampaignID e = uuid_Nil) \<and>
   (validateEvent f n e = Inl ErrMissingPlatform \<longleftrightarrow> CampaignID e \<noteq> uuid_Nil \<and> Platform e = []) \<and>
   (validateEvent f n e = Inl ErrMissingEventTime \<longleftrightarrow>
      CampaignID e \<noteq> uuid_Nil \<and> Platform e \<noteq> [] \<and> IsZero (EventTime e)) \<and>
   (validateEvent f n e = Inl ErrMissingDeduplicationKey \<longleftrightarrow>
      CampaignID e \<noteq> uuid_Nil \<and> Platform e \<noteq> [] \<and> \<not> IsZero (EventTime e) \<and> DeduplicationKey e = []) \<and>
   ((\<exists>e'. validateEvent f n e = Inr e') \<longleftrightarrow>
      CampaignID e \<noteq> uuid_Nil \<and> Platform e \<noteq> [] \<and> \<not> IsZero (EventTime e) \<and> DeduplicationKey e \<noteq> [])"
  by (simp add: validateEvent_def Let_def)

lemma validateEvent_Inr:
  assumes "validateEvent f n e = Inr e'"
  shows "CampaignID e' = CampaignID e \<and> Platform e' = Platform e \<and> EventTime e' = EventTime e \<and>
    DeduplicationKey e' = DeduplicationKey e \<and>
    Impressions e' = (if Impressions e < 0 then 0 else Impressions e) \<and>
    Clicks e' = (if Clicks e < 0 then 0 else Clicks e) \<and>
    Conversions e' = (if Conversions e < 0 then 0 else Conversions e) \<and>
    Spend e' = (if Spend e < 0 then 0 else Spend e) \<and>
    Revenue e' = (if Revenue e < 0 then 0 else Revenue e) \<and>
    Region e' = (if Region e = [] then ''all'' else Region e)"
proof -
  have ex: "\<exists>x. validateEvent f n e = Inr x" using assms by blast
  have c: "CampaignID e \<noteq> uuid_Nil" "Platform e \<noteq> []" "\<not> IsZero (EventTime e)" "DeduplicationKey e \<noteq> []"
    using ex validateEvent_cases[of f n e] by blast+
  have "Inr e' = validateEvent f n e" using assms by simp
  also have "\<dots> = Inr (e\<lparr>ID := (if ID e = uuid_Nil then f else ID e),
        Impressions := (if Impressions e < 0 then 0 else Impressions e),
        Clicks := (if Clicks e < 0 then 0 else Clicks e),
        Conversions := (if Conversions e < 0 then 0 else Conversions e),
        Spend := (if Spend e < 0 then 0 else Spend e),
        Revenue := (if Revenue e < 0 then 0 else Revenue e),
        EventType := (if EventType e = [] then ''stats'' else EventType e),
        Region := (if Region e = [] then ''all'' else Region e),
        Currency := (if Currency e = [] then ''USD'' else Currency e),
        ReceivedAt := (if IsZero (ReceivedAt e) then n else ReceivedAt e)\<rparr>)"
    using c by (simp add: validateEvent_def Let_def split del: if_split cong: if_cong)
  finally have e': "e' = e\<lparr>ID := (if ID e = uuid_Nil then f else ID e),
        Impressions := (if Impressions e < 0 then 0 else Impressions e),
        Clicks := (if Clicks e < 0 then 0 else Clicks e),
        Conversions := (if Conversions e < 0 then 0 else Conversions e),
        Spend := (if Spend e < 0 then 0 else Spend e),
        Revenue := (if Revenue e < 0 then 0 else Revenue e),
        EventType := (if EventType e = [] then ''stats'' else EventType e),
        Region := (if Region e = [] then ''all'' else Region e),
        Currency := (if Currency e = [] then ''USD'' else Currency e),
        ReceivedAt := (if IsZero (ReceivedAt e) then n else ReceivedAt e)\<rparr>" by simp
  show ?thesis unfolding e' by (simp split del: if_split)
qed

text \<open>The four ways a run of \<open>ProcessEvent\<close> on a decoded event can go.\<close>

lemma ProcessEvent_shape:
  assumes "ProcessEvent env s (Some e) = (err, s', t)"
  shows "(err = None \<and> s' = s \<and> t = [DedupCheck (DeduplicationKey e)]) \<or>
         (\<exists>x. validateEvent (fresh_id env) (validate_now env) e = Inl x \<and> err = Some x \<and> s' = s \<and>
              t = [DedupCheck (DeduplicationKey e), Validate]) \<or>
         (\<exists>v x. validateEvent (fresh_id env) (validate_now env) e = Inr v \<and>
              storeEvent (store_ok env) (clickhouse_now env) s (v\<lparr>ProcessedAt := processed_now env\<rparr>) = Inl x \<and>
              err = Some x \<and> s' = s \<and>
              t = [DedupCheck (DeduplicationKey e), Validate, Append (v\<lparr>ProcessedAt := processed_now env\<rparr>) False]) \<or>
         (\<exists>v s1. validateEvent (fresh_id env) (validate_now env) e = Inr v \<and>
              storeEvent (store_ok env) (clickhouse_now env) s (v\<lparr>ProcessedAt := processed_now env\<rparr>) = Inr s1 \<and>
              err = None \<and>
              s' = s1\<lparr>redis := snd (MarkDeduplicationKeyProcessed (mark_fails env) (redis s1) (DeduplicationKey v))\<rparr> \<and>
              t = [DedupCheck (DeduplicationKey e), Validate, Append (v\<lparr>ProcessedAt := processed_now env\<rparr>) True,
                   DedupMark (DeduplicationKey v)])"
  using assms
  by (auto simp: ProcessEvent_def Let_def split: if_splits sum.splits prod.splits)

section \<open>C6: validation failures and rejected events\<close>

text \<open>
  C6, as stated, fails: the error names the first absent field in the order the
  source checks them, so an absent \<open>platform\<close> is not reported when \<open>campaignId\<close> is
  absent too. For the payload without \<open>campaign_id\<close> and \<open>platform\<close>,
  \<open>validateEvent\<close> fails with \<open>ErrMissingCampaignID\<close>, not \<open>ErrMissingPlatform\<close>.
\<close>

theorem missing_platform_masked_counterexample:
  "Platform anonymous_event = [] \<and>
   validateEvent (fresh_id calm_env) (validate_now calm_env) anonymous_event \<noteq> Inl ErrMissingPlatform \<and>
   validateEvent (fresh_id calm_env) (validate_now calm_env) anonymous_event = Inl ErrMissingCampaignID"
  by (simp add: anonymous_event_def validateEvent_def Let_def)

text \<open>
  C6, amended: \<open>validateEvent\<close> fails with \<open>ErrMissingCampaignID\<close>,
  \<open>ErrMissingPlatform\<close>, \<open>ErrMissingEventTime\<close> or \<open>ErrMissingDeduplicationKey\<close>
  precisely when the respective field is absent and every field checked before it
  (in the order campaignId, platform, eventTime, deduplicationKey) is present; it
  succeeds precisely when all four are present; and \<open>ProcessEvent\<close> on an event without
  \<open>campaignId\<close> attempts no append and leaves the event log and the aggregate table as
  they were.
\<close>

theorem validateEvent_first_missing_field:
  "(validateEvent f n e = Inl ErrMissingCampaignID \<longleftrightarrow> CampaignID e = uuid_Nil) \<and>
   (validateEvent f n e = Inl ErrMissingPlatform \<longleftrightarrow> CampaignID e \<noteq> uuid_Nil \<and> Platform e = []) \<and>
   (validateEvent f n e = Inl ErrMissingEventTime \<longleftrightarrow>
      CampaignID e \<noteq> uuid_Nil \<and> Platform e \<noteq> [] \<and> IsZero (EventTime e)) \<and>
   (validateEvent f n e = Inl ErrMissingDeduplicationKey \<longleftrightarrow>
      CampaignID e \<noteq> uuid_Nil \<and> Platform e \<noteq> [] \<and> \<not> IsZero (EventTime e) \<and> DeduplicationKey e = []) \<and>
   ((\<exists>e'. validateEvent f n e = Inr e') \<longleftrightarrow>
      CampaignID e \<noteq> uuid_Nil \<and> Platform e \<noteq> [] \<and> \<not> IsZero (EventTime e) \<and> DeduplicationKey e \<noteq> []) \<and>
   (CampaignID e = uuid_Nil \<longrightarrow>
      campaign_events (fst (snd (ProcessEvent env s (Some e)))) = campaign_events s \<and>
      campaign_insights (fst (snd (ProcessEvent env s (Some e)))) = campaign_insights s \<and>
      (\<forall>ev ok. Append ev ok \<notin> set (snd (snd (ProcessEvent env s (Some e))))))"
proof -
  have rejects: "campaign_events (fst (snd (ProcessEvent env s (Some e)))) = campaign_events s \<and>
      campaign_insights (fst (snd (ProcessEvent env s (Some e)))) = campaign_insights s \<and>
      (\<forall>ev ok. Append ev ok \<notin> set (snd (snd (ProcessEvent env s (Some e)))))"
    if nil: "CampaignID e = uuid_Nil"
  proof -
    obtain err s' t where run: "ProcessEvent env s (Some e) = (err, s', t)"
      by (cases "ProcessEvent env s (Some e)") auto
    have v: "validateEvent (fresh_id env) (validate_now env) e = Inl ErrMissingCampaignID"
      using nil validateEvent_cases[of "fresh_id env" "validate_now env" e] by blast
    from ProcessEvent_shape[OF run] v
    have "s' = s \<and> (\<forall>ev ok. Append ev ok \<notin> set t)" by auto
    then show ?thesis by (simp add: run)
  qed
  show ?thesis using validateEvent_cases[of f n e] rejects by blast
qed

theorem validateEvent_first_missing_field_witness:
  "CampaignID anonymous_event = uuid_Nil \<and>
   validateEvent (fresh_id calm_env) (validate_now calm_env) anonymous_event = Inl ErrMissingCampaignID \<and>
   campaign_events (fst (snd (ProcessEvent calm_env empty_system (Some anonymous_event)))) = []"
  using validateEvent_first_missing_field[of "fresh_id calm_env" "validate_now calm_env" anonymous_event
          calm_env empty_system]
  by (simp add: anonymous_event_def empty_system_def)

section \<open>A run of the pipeline on the first scenario event\<close>

lemma calm_process:
  "ProcessEvent calm_env empty_system (Some scenario_event_1) =
     (None,
      \<lparr>campaign_events = [scenario_event_1\<lparr>ProcessedAt := 1704153602\<rparr>],
       campaign_insights =
         [\<lparr>campaign_id = campaign_1, date = 19723, platform = ''meta'', region = ''all'',
           impressions = 1000, clicks = 50, conversions = 0, spend = 50, revenue = 100,
           ctr = 1 / 20, cpc = 1, cpa = 0, roas = 2, conversion_rate = 0,
           updated_at = 1704153603\<rparr>],
       redis = [(''dedup:meta:batch-1'', Raw ''1'')]\<rparr>,
      [DedupCheck ''meta:batch-1'', Validate,
       Append (scenario_event_1\<lparr>ProcessedAt := 1704153602\<rparr>) True,
       DedupMark ''meta:batch-1''])"
  by (simp add: ProcessEvent_def IsDeduplicationKeyProcessed_def
      MarkDeduplicationKeyProcessed_def redis_set_def storeEvent_def
      mv_campaign_daily_aggregation_def mv_select_list_def group_keys_def group_rows_def group_key_def
      sum_int64_def sum_float64_def wrap64_def divide_checked_def toDate_def
      validateEvent_def Let_def calm_env_def empty_system_def scenario_event_1_def
      campaign_1_def uuid_Nil_def IsZero_def zero_time_def)



section \<open>C7: the order of the pipeline's steps\<close>




section \<open>C8: a key is marked only after its event is stored\<close>

text \<open>
  C8: in every run of \<open>ProcessEvent\<close>, a call of \<open>MarkDeduplicationKeyProcessed\<close> for a
  key is immediately preceded by the successful \<open>storeEvent\<close> of an event with that key,
  no mark is made before it, and the event is then in the event log. Hence the
  Deduplication Store changes only by the mark of an event the run has appended.
\<close>

theorem mark_only_after_stored:
  assumes run: "ProcessEvent env s msg = (err, s', t)"
  shows "(\<forall>k. DedupMark k \<in> set t \<longrightarrow>
           (\<exists>event pre s1. t = pre @ [Append event True, DedupMark k] \<and>
              (\<forall>k'. DedupMark k' \<notin> set pre) \<and>
              DeduplicationKey event = k \<and>
              storeEvent (store_ok env) (clickhouse_now env) s event = Inr s1 \<and>
              campaign_events s' = campaign_events s @ [event])) \<and>
         (redis s' = redis s \<or>
           (\<exists>event. campaign_events s' = campaign_events s @ [event] \<and>
              redis s' = redis_set (''dedup:'' @ DeduplicationKey event) (Raw ''1'') (redis s)))"
proof (cases msg)
  case None
  then show ?thesis using run by (simp add: ProcessEvent_def)
next
  case (Some e)
  from ProcessEvent_shape[OF run[unfolded Some]] show ?thesis
  proof (elim disjE exE conjE)
    fix v s1
    assume v: "validateEvent (fresh_id env) (validate_now env) e = Inr v"
      and st: "storeEvent (store_ok env) (clickhouse_now env) s (v\<lparr>ProcessedAt := processed_now env\<rparr>) = Inr s1"
      and s': "s' = s1\<lparr>redis := snd (MarkDeduplicationKeyProcessed (mark_fails env) (redis s1) (DeduplicationKey v))\<rparr>"
      and t: "t = [DedupCheck (DeduplicationKey e), Validate, Append (v\<lparr>ProcessedAt := processed_now env\<rparr>) True,
                   DedupMark (DeduplicationKey v)]"
    let ?ev = "v\<lparr>ProcessedAt := processed_now env\<rparr>"
    have s1: "campaign_events s1 = campaign_events s @ [?ev]" "redis s1 = redis s"
      using st by (auto simp: storeEvent_def split: if_splits option.splits)
    have ce: "campaign_events s' = campaign_events s @ [?ev]" using s' s1 by simp
    have a: "t = [DedupCheck (DeduplicationKey e), Validate] @ [Append ?ev True, DedupMark (DeduplicationKey v)]"
      using t by simp
    have first: "\<forall>k. DedupMark k \<in> set t \<longrightarrow>
           (\<exists>event pre s1. t = pre @ [Append event True, DedupMark k] \<and>
              (\<forall>k'. DedupMark k' \<notin> set pre) \<and>
              DeduplicationKey event = k \<and>
              storeEvent (store_ok env) (clickhouse_now env) s event = Inr s1 \<and>
              campaign_events s' = campaign_events s @ [event])"
    proof (intro allI impI)
      fix k assume "DedupMark k \<in> set t"
      then have k: "k = DeduplicationKey v" using t by simp
      show "\<exists>event pre s1. t = pre @ [Append event True, DedupMark k] \<and>
              (\<forall>k'. DedupMark k' \<notin> set pre) \<and>
              DeduplicationKey event = k \<and>
              storeEvent (store_ok env) (clickhouse_now env) s event = Inr s1 \<and>
              campaign_events s' = campaign_events s @ [event]"
        apply (rule exI[of _ ?ev])
        apply (rule exI[of _ "[DedupCheck (DeduplicationKey e), Validate]"])
        apply (rule exI[of _ s1])
        using a st ce k by simp
    qed
    have second: "redis s' = redis s \<or>
           (\<exists>event. campaign_events s' = campaign_events s @ [event] \<and>
              redis s' = redis_set (''dedup:'' @ DeduplicationKey event) (Raw ''1'') (redis s))"
    proof (cases "mark_fails env")
      case True
      then show ?thesis using s' s1 by (simp add: MarkDeduplicationKeyProcessed_def)
    next
      case False
      have "redis s' = redis_set (''dedup:'' @ DeduplicationKey ?ev) (Raw ''1'') (redis s)"
        using False s' s1 by (simp add: MarkDeduplicationKeyProcessed_def)
      then show ?thesis using ce by blast
    qed
    show ?thesis using first second by blast
  qed auto
qed

theorem mark_only_after_stored_witness:
  "DedupMark ''meta:batch-1'' \<in> set (snd (snd (ProcessEvent calm_env empty_system (Some scenario_event_1)))) \<and>
   (\<exists>event pre s1.
      snd (snd (ProcessEvent calm_env empty_system (Some scenario_event_1))) =
        pre @ [Append event True, DedupMark ''meta:batch-1''] \<and>
      DeduplicationKey event = ''meta:batch-1'' \<and>
      storeEvent (store_ok calm_env) (clickhouse_now calm_env) empty_system event = Inr s1 \<and>
      campaign_events (fst (snd (ProcessEvent calm_env empty_system (Some scenario_event_1)))) =
        campaign_events empty_system @ [event])"
proof -
  have m: "DedupMark ''meta:batch-1'' \<in> set [DedupCheck ''meta:batch-1'', Validate,
       Append (scenario_event_1\<lparr>ProcessedAt := 1704153602\<rparr>) True, DedupMark ''meta:batch-1'']"
    by simp
  from mark_only_after_stored[OF calm_process] m show ?thesis
    unfolding calm_process by (simp only: fst_conv snd_conv) blast
qed

section \<open>C10: empty results and the Insights Cache\<close>

lemma map_of_redis_set:
  "map_of (redis_set k v r) k' = (if k' = k then Some v else map_of r k')"
  by (induction r) (auto simp: redis_set_def)

lemma format_2024: "format_date 1704067200 = ''2024-01-01''"
  by code_simp

lemma scenario_key: "getCacheKey scenario_params =
   ''insights:6f1c2a9e-3b7d-4e58-9a41-0c5d2e8f7b13:start:2024-01-01:end:2024-01-01:granularity:daily:''"
  by (simp add: getCacheKey_def scenario_params_def campaign_1_def IsZero_def zero_time_def
      format_2024 Let_def)

lemma empty_entry_run:
  "GetCampaignInsights calm_query_env system_with_empty_entry scenario_params =
     (Inr [], system_with_empty_entry, [CacheGet (getCacheKey scenario_params), DbQuery])"
  by (simp add: GetCampaignInsights_def GetObject_def calm_query_env_def system_with_empty_entry_def
      empty_system_def insights_query_def Let_def)

text \<open>
  C10: \<open>GetCampaignInsights\<close> writes the Insights Cache only with the non-empty list of
  rows it returns, under the cache key of its parameters; a cached value that decodes
  to the empty list is treated as a miss, so the database is queried; a call that
  answers with zero rows has queried the database and has left the stores, the cache
  included, unchanged; and a cache without empty entries stays so. The tables are
  never written.
\<close>

theorem empty_result_never_cached:
  assumes run: "GetCampaignInsights env s params = (res, s', t)"
  shows "campaign_events s' = campaign_events s \<and> campaign_insights s' = campaign_insights s \<and>
    (\<forall>k rows. CacheSet k rows \<in> set t \<longrightarrow> rows \<noteq> [] \<and> res = Inr rows \<and> k = getCacheKey params) \<and>
    (redis s' = redis s \<or>
       (\<exists>rows. rows \<noteq> [] \<and> res = Inr rows \<and>
          redis s' = redis_set (getCacheKey params) (Encoded rows) (redis s))) \<and>
    (GetObject (get_fails env) (redis s) (getCacheKey params) = Inr [] \<longrightarrow>
       DbQuery \<in> set t \<and>
       (query_ok env \<longrightarrow> res = Inr (insights_query params (campaign_insights s)))) \<and>
    (res = Inr [] \<longrightarrow> DbQuery \<in> set t \<and> s' = s) \<and>
    ((\<forall>k. map_of (redis s) k \<noteq> Some (Encoded [])) \<longrightarrow>
       (\<forall>k. map_of (redis s') k \<noteq> Some (Encoded [])))"
proof -
  let ?key = "getCacheKey params"
  let ?q = "insights_query params (campaign_insights s)"
  consider
    (hit) x xs where "GetObject (get_fails env) (redis s) ?key = Inr (x # xs)"
  | (miss) "\<forall>x xs. GetObject (get_fails env) (redis s) ?key \<noteq> Inr (x # xs)"
    by blast
  then show ?thesis
  proof cases
    case hit
    then have "res = Inr (x # xs)" "s' = s" "t = [CacheGet ?key]"
      using run by (simp_all add: GetCampaignInsights_def Let_def)
    then show ?thesis using hit by simp
  next
    case miss
    have unfold: "GetCampaignInsights env s params =
       (if \<not> query_ok env then (Inl ErrDatabase, s, [CacheGet ?key, DbQuery])
        else if length ?q > 0
          then (Inr ?q, s\<lparr>redis := snd (Set (set_fails env) (redis s) ?key ?q)\<rparr>,
                [CacheGet ?key, DbQuery, CacheSet ?key ?q])
          else (Inr ?q, s, [CacheGet ?key, DbQuery]))"
      using miss
      by (auto simp: GetCampaignInsights_def Let_def split: sum.splits list.splits prod.splits)
    show ?thesis
    proof (cases "query_ok env")
      case False
      then show ?thesis using run unfold by auto
    next
      case ok: True
      show ?thesis
      proof (cases "?q = []")
        case True
        then show ?thesis using run unfold ok by auto
      next
        case False
        then have r: "res = Inr ?q" "t = [CacheGet ?key, DbQuery, CacheSet ?key ?q]"
          "s' = s\<lparr>redis := snd (Set (set_fails env) (redis s) ?key ?q)\<rparr>"
          using run unfold ok by auto
        show ?thesis
        proof (cases "set_fails env")
          case True
          then have "s' = s" using r by (simp add: Set_def)
          then show ?thesis using r False by simp
        next
          case sf: False
          then have rs: "redis s' = redis_set ?key (Encoded ?q) (redis s)"
            using r by (simp add: Set_def)
          have inv: "(\<forall>k. map_of (redis s) k \<noteq> Some (Encoded [])) \<longrightarrow>
               (\<forall>k. map_of (redis s') k \<noteq> Some (Encoded []))"
            using False by (simp add: rs map_of_redis_set)
          have ex: "\<exists>rows. rows \<noteq> [] \<and> res = Inr rows \<and>
              redis s' = redis_set ?key (Encoded rows) (redis s)"
            using r False rs by blast
          have ce: "campaign_events s' = campaign_events s" "campaign_insights s' = campaign_insights s"
            using r by simp_all
          have ne: "res \<noteq> Inr []" using r False by simp
          have tr: "\<forall>k rows. CacheSet k rows \<in> set t \<longrightarrow> rows \<noteq> [] \<and> res = Inr rows \<and> k = ?key"
            using r False by simp
          have db: "DbQuery \<in> set t" using r by simp
          show ?thesis using ce tr ex db ne inv r(1) ok by blast
        qed
      qed
    qed
  qed
qed

theorem empty_result_never_cached_witness:
  "GetObject (get_fails calm_query_env) (redis system_with_empty_entry) (getCacheKey scenario_params) = Inr [] \<and>
   GetCampaignInsights calm_query_env system_with_empty_entry scenario_params =
     (Inr [], system_with_empty_entry, [CacheGet (getCacheKey scenario_params), DbQuery]) \<and>
   DbQuery \<in> set [CacheGet (getCacheKey scenario_params), DbQuery]"
proof -
  have g: "GetObject (get_fails calm_query_env) (redis system_with_empty_entry) (getCacheKey scenario_params) = Inr []"
    by (simp add: GetObject_def calm_query_env_def system_with_empty_entry_def)
  from empty_result_never_cached[OF empty_entry_run] g
  have "DbQuery \<in> set [CacheGet (getCacheKey scenario_params), DbQuery]" by blast
  then show ?thesis using g empty_entry_run by blast
qed

section \<open>C9: cache keys and queries\<close>

lemma buildInsightsQuery_unfold:
  "buildInsightsQuery p =
    (base_query @
       (if p_CampaignID p \<noteq> uuid_Nil then '' AND campaign_id = ?'' else []) @
       (if \<not> IsZero (StartDate p) then '' AND date >= ?'' else []) @
       (if \<not> IsZero (EndDate p) then '' AND date <= ?'' else []) @
       (if p_Platform p \<noteq> None then '' AND platform = ?'' else []) @
       (if p_Region p \<noteq> None \<and> p_Region p \<noteq> Some [] then '' AND region = ?'' else []) @
       '' ORDER BY date ASC'',
     (if p_CampaignID p \<noteq> uuid_Nil then [ArgString (p_CampaignID p)] else []) @
     (if \<not> IsZero (StartDate p) then [ArgTime (StartDate p)] else []) @
     (if \<not> IsZero (EndDate p) then [ArgTime (EndDate p)] else []) @
     (case p_Platform p of Some pl \<Rightarrow> [ArgString pl] | None \<Rightarrow> []) @
     (case p_Region p of Some rg \<Rightarrow> (if rg \<noteq> [] then [ArgString rg] else []) | None \<Rightarrow> []))"
  by (simp add: buildInsightsQuery_def Let_def split: option.splits)

lemma clauses_inj:
  "(if a1 then '' AND campaign_id = ?'' else []) @
       (if b1 then '' AND date >= ?'' else []) @
       (if c1 then '' AND date <= ?'' else []) @
       (if d1 then '' AND platform = ?'' else []) @
       (if e1 then '' AND region = ?'' else []) @
       '' ORDER BY date ASC'' =
   (if a2 then '' AND campaign_id = ?'' else []) @
       (if b2 then '' AND date >= ?'' else []) @
       (if c2 then '' AND date <= ?'' else []) @
       (if d2 then '' AND platform = ?'' else []) @
       (if e2 then '' AND region = ?'' else []) @
       '' ORDER BY date ASC''
   \<Longrightarrow> a1 = a2 \<and> b1 = b2 \<and> c1 = c2 \<and> d1 = d2 \<and> e1 = e2"
  by (cases a1; cases a2; cases b1; cases b2; cases c1; cases c2; cases d1; cases d2; cases e1; cases e2; simp)

text \<open>
  C9, as stated, fails: \<open>buildInsightsQuery\<close> ignores the granularity, which
  \<open>getCacheKey\<close> writes into the key. The daily and the weekly query for campaign 1 on
  2024-01-01 are the same database query with the same arguments, and have different
  cache keys.
\<close>

theorem equal_queries_with_distinct_cache_keys_counterexample:
  "buildInsightsQuery scenario_params = buildInsightsQuery weekly_params \<and>
   getCacheKey scenario_params \<noteq> getCacheKey weekly_params"
  by (simp add: buildInsightsQuery_def getCacheKey_def weekly_params_def scenario_params_def Let_def)

lemma same_query_same_fields:
  assumes q: "buildInsightsQuery p = buildInsightsQuery p'"
    and r: "p_Region p \<noteq> Some []" "p_Region p' \<noteq> Some []"
  shows "p_CampaignID p = p_CampaignID p' \<and> StartDate p = StartDate p' \<and> EndDate p = EndDate p' \<and>
         p_Platform p = p_Platform p' \<and> p_Region p = p_Region p'"
proof -
  have qtxt: "fst (buildInsightsQuery p) = fst (buildInsightsQuery p')"
    and args: "snd (buildInsightsQuery p) = snd (buildInsightsQuery p')"
    using q by simp_all
  have flags: "(p_CampaignID p \<noteq> uuid_Nil) = (p_CampaignID p' \<noteq> uuid_Nil) \<and>
      (\<not> IsZero (StartDate p)) = (\<not> IsZero (StartDate p')) \<and>
      (\<not> IsZero (EndDate p)) = (\<not> IsZero (EndDate p')) \<and>
      (p_Platform p \<noteq> None) = (p_Platform p' \<noteq> None) \<and>
      (p_Region p \<noteq> None \<and> p_Region p \<noteq> Some []) = (p_Region p' \<noteq> None \<and> p_Region p' \<noteq> Some [])"
    by (rule clauses_inj) (use qtxt in \<open>simp only: buildInsightsQuery_unfold fst_conv same_append_eq\<close>)
  have cid: "p_CampaignID p = p_CampaignID p'"
    using flags args by (cases "p_CampaignID p = uuid_Nil") (simp_all add: buildInsightsQuery_unfold)
  have sd: "StartDate p = StartDate p'"
    using flags args cid
    by (cases "IsZero (StartDate p)") (simp_all add: buildInsightsQuery_unfold IsZero_def)
  have ed: "EndDate p = EndDate p'"
    using flags args cid sd
    by (cases "IsZero (EndDate p)") (simp_all add: buildInsightsQuery_unfold IsZero_def)
  have pl: "p_Platform p = p_Platform p'"
    using flags args cid sd ed
    by (cases "p_Platform p"; cases "p_Platform p'") (simp_all add: buildInsightsQuery_unfold)
  have rg: "p_Region p = p_Region p'"
    using flags args cid sd ed pl r
    by (cases "p_Region p"; cases "p_Region p'") (auto simp: buildInsightsQuery_unfold split: if_splits)
  show ?thesis using cid sd ed pl rg by simp
qed

lemma format_days:
  "format_date 1701507600 = ''2023-12-02''" "format_date 1701538200 = ''2023-12-02''"
  "format_date 1704099600 = ''2024-01-01''" "format_date 1704130200 = ''2024-01-01''"
  by code_simp+

text \<open>
  C9, amended: \<open>getCacheKey\<close> is a function of the query parameters that is composed of
  \<open>campaignId\<close>, the calendar days of \<open>startDate\<close> and \<open>endDate\<close> (each left out when
  zero), \<open>platform\<close>, \<open>region\<close> and \<open>granularity\<close>: any two parameter values that agree
  on these map to the same cache key, whatever the times of day of their dates. Hence
  any two parameter values that \<open>buildInsightsQuery\<close> translates to the same database
  query and arguments map to the same cache key if they also have the same granularity,
  their regions being non-empty when given, as the request handler passes them.
\<close>

theorem cache_key_composition:
  "(p_CampaignID p = p_CampaignID p' \<and>
    IsZero (StartDate p) = IsZero (StartDate p') \<and> toDate (StartDate p) = toDate (StartDate p') \<and>
    IsZero (EndDate p) = IsZero (EndDate p') \<and> toDate (EndDate p) = toDate (EndDate p') \<and>
    p_Platform p = p_Platform p' \<and> p_Region p = p_Region p' \<and> Granularity p = Granularity p'
      \<longrightarrow> getCacheKey p = getCacheKey p') \<and>
   (buildInsightsQuery p = buildInsightsQuery p' \<and> Granularity p = Granularity p' \<and>
    p_Region p \<noteq> Some [] \<and> p_Region p' \<noteq> Some []
      \<longrightarrow> getCacheKey p = getCacheKey p')"
proof -
  have days: "getCacheKey p = getCacheKey p'"
    if c: "p_CampaignID p = p_CampaignID p'"
      and sz: "IsZero (StartDate p) = IsZero (StartDate p')"
      and sd: "toDate (StartDate p) = toDate (StartDate p')"
      and ez: "IsZero (EndDate p) = IsZero (EndDate p')"
      and ed: "toDate (EndDate p) = toDate (EndDate p')"
      and pl: "p_Platform p = p_Platform p'" and rg: "p_Region p = p_Region p'"
      and g: "Granularity p = Granularity p'"
    unfolding getCacheKey_def format_date_def c sz sd ez ed pl rg g by (rule refl)
  have query: "getCacheKey p = getCacheKey p'"
    if q: "buildInsightsQuery p = buildInsightsQuery p'" and g: "Granularity p = Granularity p'"
      and r: "p_Region p \<noteq> Some []" "p_Region p' \<noteq> Some []"
    using same_query_same_fields[OF q r] g by (intro days) simp_all
  show ?thesis using days query by blast
qed

theorem cache_key_composition_witness:
  "p_CampaignID morning_params = p_CampaignID evening_params \<and>
   StartDate morning_params \<noteq> StartDate evening_params \<and>
   IsZero (StartDate morning_params) = IsZero (StartDate evening_params) \<and>
   toDate (StartDate morning_params) = toDate (StartDate evening_params) \<and>
   IsZero (EndDate morning_params) = IsZero (EndDate evening_params) \<and>
   toDate (EndDate morning_params) = toDate (EndDate evening_params) \<and>
   p_Platform morning_params = p_Platform evening_params \<and>
   p_Region morning_params = p_Region evening_params \<and>
   Granularity morning_params = Granularity evening_params \<and>
   getCacheKey evening_params = getCacheKey morning_params \<and>
   getCacheKey morning_params =
     ''insights:6f1c2a9e-3b7d-4e58-9a41-0c5d2e8f7b13:start:2023-12-02:end:2024-01-01:platform:meta:granularity:daily:''"
proof -
  have h: "p_CampaignID morning_params = p_CampaignID evening_params \<and>
    IsZero (StartDate morning_params) = IsZero (StartDate evening_params) \<and>
    toDate (StartDate morning_params) = toDate (StartDate evening_params) \<and>
    IsZero (EndDate morning_params) = IsZero (EndDate evening_params) \<and>
    toDate (EndDate morning_params) = toDate (EndDate evening_params) \<and>
    p_Platform morning_params = p_Platform evening_params \<and>
    p_Region morning_params = p_Region evening_params \<and>
    Granularity morning_params = Granularity evening_params"
    by (simp add: morning_params_def evening_params_def IsZero_def zero_time_def toDate_def)
  have k: "getCacheKey morning_params = getCacheKey evening_params"
    using cache_key_composition[of morning_params evening_params] h by blast
  have v: "getCacheKey morning_params =
     ''insights:6f1c2a9e-3b7d-4e58-9a41-0c5d2e8f7b13:start:2023-12-02:end:2024-01-01:platform:meta:granularity:daily:''"
    by (simp add: getCacheKey_def morning_params_def campaign_1_def IsZero_def zero_time_def
        format_days Let_def)
  have n: "StartDate morning_params \<noteq> StartDate evening_params"
    by (simp add: morning_params_def evening_params_def)
  show ?thesis using h k v n by simp
qed

section \<open>Aggregation: helper facts\<close>

text \<open>Neither select list can divide by zero: each yields the row of \<open>bucket_row\<close>.\<close>

lemma wrap64_id: "0 \<le> x \<Longrightarrow> x < 2 ^ 63 \<Longrightarrow> wrap64 x = x"
  by (simp add: wrap64_def)

lemma guarded_no_fault:
  "(if 0 < d then divide_checked n d else Some 0) = Some (guarded_quotient n d)"
  by (simp add: divide_checked_def guarded_quotient_def)

lemma guarded_no_fault_int:
  "(if 0 < x then divide_checked n (real_of_int x) else Some 0) = Some (guarded_quotient n (real_of_int x))"
  by (simp add: divide_checked_def guarded_quotient_def)

lemma mv_select_list_row: "mv_select_list now k g = Some (bucket_row now k g)"
  by (cases k) (simp add: mv_select_list_def bucket_row_def guarded_no_fault guarded_no_fault_int)

lemma reaggregation_select_list_row: "reaggregation_select_list now k g = Some (bucket_row now k g)"
  by (cases k) (simp add: reaggregation_select_list_def bucket_row_def guarded_no_fault guarded_no_fault_int)

lemma those_map_Some: "those (map (\<lambda>x. Some (f x)) xs) = Some (map f xs)"
  by (induction xs) simp_all

lemma mv_rows: "mv_campaign_daily_aggregation now block = Some (aggregate_rows now block)"
  by (simp add: mv_campaign_daily_aggregation_def mv_select_list_row those_map_Some aggregate_rows_def)

lemma reaggregation_rows:
  "reaggregation_query now cid a b table =
     Some (aggregate_rows now (filter (reaggregation_where cid a b) table))"
  by (simp add: reaggregation_query_def reaggregation_select_list_row those_map_Some aggregate_rows_def Let_def)

lemma storeEvent_ok:
  "storeEvent True ch_now s event =
     Inr (s\<lparr>campaign_events := campaign_events s @ [event],
            campaign_insights := campaign_insights s @ aggregate_rows ch_now [event]\<rparr>)"
  by (simp add: storeEvent_def mv_rows)

lemma aggregate_rows_single:
  "aggregate_rows now [e] = [bucket_row now (group_key e) [e]]"
  by (simp add: aggregate_rows_def group_keys_def group_rows_def)

lemma sum_list_nonneg_int: "(\<forall>x\<in>set xs. 0 \<le> f x) \<Longrightarrow> 0 \<le> sum_list (map f xs)" for f :: "'a \<Rightarrow> int"
  by (induction xs) auto

lemma sum_list_nonneg_real: "(\<forall>x\<in>set xs. 0 \<le> f x) \<Longrightarrow> 0 \<le> sum_list (map f xs)" for f :: "'a \<Rightarrow> real"
  by (induction xs) auto

lemma without_updated_at_bucket_row:
  "without_updated_at (bucket_row now k g) = without_updated_at (bucket_row now' k g)"
  by (simp add: without_updated_at_def bucket_row_def)

lemma without_updated_at_aggregate_rows:
  "map without_updated_at (aggregate_rows now rows) = map without_updated_at (aggregate_rows now' rows)"
  by (simp add: aggregate_rows_def without_updated_at_bucket_row[of now _ _ now'])

lemma scenario_rows:
  "aggregate_rows now [scenario_event_1, scenario_event_2] =
     [\<lparr>campaign_id = campaign_1, date = 19723, platform = ''meta'', region = ''all'',
       impressions = 1500, clicks = 75, conversions = 0, spend = 75, revenue = 150,
       ctr = 1 / 20, cpc = 1, cpa = 0, roas = 2, conversion_rate = 0, updated_at = now\<rparr>]"
  by (simp add: aggregate_rows_def group_keys_def group_rows_def group_key_def bucket_row_def
      guarded_quotient_def sum_int64_def sum_float64_def wrap64_def toDate_def
      scenario_event_1_def scenario_event_2_def)

section \<open>C5: the two paths compute the same aggregate\<close>

text \<open>
  C5: the select list of the materialized view and the select list of the
  reaggregation query are the same function of a group of events, and the
  reaggregation query is the view's query applied to the events that pass its
  \<open>WHERE\<close> clause: for any set of events both yield equal Aggregate Rows, ratios and
  their zero-denominator policy included, and equal rows without \<open>updatedAt\<close> when the
  two run at different times.
\<close>

theorem both_paths_same_computation:
  "reaggregation_select_list now k g = mv_select_list now k g \<and>
   reaggregation_query now cid a b table =
     mv_campaign_daily_aggregation now (filter (reaggregation_where cid a b) table) \<and>
   map_option (map without_updated_at) (reaggregation_query now cid a b table) =
     map_option (map without_updated_at)
       (mv_campaign_daily_aggregation now' (filter (reaggregation_where cid a b) table))"
  by (simp add: reaggregation_select_list_row mv_select_list_row reaggregation_rows mv_rows
      without_updated_at_aggregate_rows[of now _ now'])

theorem both_paths_same_computation_witness:
  "reaggregation_query 1704240000 campaign_1 1704067200 1704067200 [scenario_event_1, scenario_event_2] =
     mv_campaign_daily_aggregation 1704240000 [scenario_event_1, scenario_event_2] \<and>
   mv_campaign_daily_aggregation 1704240000 [scenario_event_1, scenario_event_2] =
     Some [\<lparr>campaign_id = campaign_1, date = 19723, platform = ''meta'', region = ''all'',
       impressions = 1500, clicks = 75, conversions = 0, spend = 75, revenue = 150,
       ctr = 1 / 20, cpc = 1, cpa = 0, roas = 2, conversion_rate = 0, updated_at = 1704240000\<rparr>]"
proof -
  have f: "filter (reaggregation_where campaign_1 1704067200 1704067200) [scenario_event_1, scenario_event_2] =
     [scenario_event_1, scenario_event_2]"
    by (simp add: reaggregation_where_def scenario_event_1_def scenario_event_2_def)
  from both_paths_same_computation[of 1704240000 _ _ campaign_1 1704067200 1704067200
      "[scenario_event_1, scenario_event_2]"]
  have "reaggregation_query 1704240000 campaign_1 1704067200 1704067200 [scenario_event_1, scenario_event_2] =
     mv_campaign_daily_aggregation 1704240000 [scenario_event_1, scenario_event_2]"
    unfolding f by blast
  then show ?thesis by (simp add: mv_rows scenario_rows)
qed

section \<open>C4: ratios\<close>

text \<open>
  C4: for every group of events, both select lists yield a row without a
  division-by-zero fault; in it CTR is 0 if the summed impressions are 0, CPC and the
  conversion rate are 0 if the summed clicks are 0, CPA is 0 if the summed conversions
  are 0, and ROAS is 0 if the summed spend is 0. For a group of validated events
  (no negative metric) whose integer sums fit into \<open>Int64\<close>, the row carries the sums,
  and each ratio is the specification's: the quotient of the sums, 0 when the
  denominator is 0.
\<close>

theorem ratios_guarded:
  "\<exists>r. mv_select_list now k g = Some r \<and> reaggregation_select_list now k g = Some r \<and>
     (sum_int64 Impressions g = 0 \<longrightarrow> ctr r = 0) \<and>
     (sum_int64 Clicks g = 0 \<longrightarrow> cpc r = 0 \<and> conversion_rate r = 0) \<and>
     (sum_int64 Conversions g = 0 \<longrightarrow> cpa r = 0) \<and>
     (sum_float64 Spend g = 0 \<longrightarrow> roas r = 0) \<and>
     ((\<forall>e \<in> set g. 0 \<le> Impressions e \<and> 0 \<le> Clicks e \<and> 0 \<le> Conversions e \<and> 0 \<le> Spend e) \<and>
      sum_list (map Impressions g) < 2 ^ 63 \<and> sum_list (map Clicks g) < 2 ^ 63 \<and>
      sum_list (map Conversions g) < 2 ^ 63 \<longrightarrow>
        impressions r = sum_list (map Impressions g) \<and>
        clicks r = sum_list (map Clicks g) \<and>
        conversions r = sum_list (map Conversions g) \<and>
        spend r = sum_list (map Spend g) \<and>
        revenue r = sum_list (map Revenue g) \<and>
        ctr r = spec_ratio (real_of_int (sum_list (map Clicks g))) (real_of_int (sum_list (map Impressions g))) \<and>
        cpc r = spec_ratio (sum_list (map Spend g)) (real_of_int (sum_list (map Clicks g))) \<and>
        cpa r = spec_ratio (sum_list (map Spend g)) (real_of_int (sum_list (map Conversions g))) \<and>
        roas r = spec_ratio (sum_list (map Revenue g)) (sum_list (map Spend g)) \<and>
        conversion_rate r = spec_ratio (real_of_int (sum_list (map Conversions g))) (real_of_int (sum_list (map Clicks g))))"
proof -
  let ?r = "bucket_row now k g"
  have zero: "(sum_int64 Impressions g = 0 \<longrightarrow> ctr ?r = 0) \<and>
     (sum_int64 Clicks g = 0 \<longrightarrow> cpc ?r = 0 \<and> conversion_rate ?r = 0) \<and>
     (sum_int64 Conversions g = 0 \<longrightarrow> cpa ?r = 0) \<and>
     (sum_float64 Spend g = 0 \<longrightarrow> roas ?r = 0)"
    by (simp add: bucket_row_def guarded_quotient_def)
  have quot: "impressions ?r = sum_list (map Impressions g) \<and>
        clicks ?r = sum_list (map Clicks g) \<and>
        conversions ?r = sum_list (map Conversions g) \<and>
        spend ?r = sum_list (map Spend g) \<and>
        revenue ?r = sum_list (map Revenue g) \<and>
        ctr ?r = spec_ratio (real_of_int (sum_list (map Clicks g))) (real_of_int (sum_list (map Impressions g))) \<and>
        cpc ?r = spec_ratio (sum_list (map Spend g)) (real_of_int (sum_list (map Clicks g))) \<and>
        cpa ?r = spec_ratio (sum_list (map Spend g)) (real_of_int (sum_list (map Conversions g))) \<and>
        roas ?r = spec_ratio (sum_list (map Revenue g)) (sum_list (map Spend g)) \<and>
        conversion_rate ?r = spec_ratio (real_of_int (sum_list (map Conversions g))) (real_of_int (sum_list (map Clicks g)))"
    if nn: "\<forall>e \<in> set g. 0 \<le> Impressions e \<and> 0 \<le> Clicks e \<and> 0 \<le> Conversions e \<and> 0 \<le> Spend e"
      and fits: "sum_list (map Impressions g) < 2 ^ 63" "sum_list (map Clicks g) < 2 ^ 63"
        "sum_list (map Conversions g) < 2 ^ 63"
  proof -
    have i0: "0 \<le> sum_list (map Impressions g)" using nn by (intro sum_list_nonneg_int) simp
    have c0: "0 \<le> sum_list (map Clicks g)" using nn by (intro sum_list_nonneg_int) simp
    have v0: "0 \<le> sum_list (map Conversions g)" using nn by (intro sum_list_nonneg_int) simp
    have s0: "0 \<le> sum_list (map Spend g)" using nn by (intro sum_list_nonneg_real) simp
    have si: "sum_int64 Impressions g = sum_list (map Impressions g)"
      "sum_int64 Clicks g = sum_list (map Clicks g)"
      "sum_int64 Conversions g = sum_list (map Conversions g)"
      using i0 c0 v0 fits by (simp_all add: sum_int64_def wrap64_id)
    have gq: "guarded_quotient n d = spec_ratio n d" if "0 \<le> d" for n d :: real
      using that by (auto simp: guarded_quotient_def spec_ratio_def)
    show ?thesis
      using i0 c0 v0 s0 by (simp add: bucket_row_def si sum_float64_def gq)
  qed
  show ?thesis
    apply (rule exI[of _ ?r])
    using zero quot by (simp add: mv_select_list_row reaggregation_select_list_row)
qed

theorem ratios_guarded_witness:
  "list_all (\<lambda>e. 0 \<le> Impressions e \<and> 0 \<le> Clicks e \<and> 0 \<le> Conversions e \<and> 0 \<le> Spend e)
     [scenario_event_1, scenario_event_2] \<and>
   sum_list (map Impressions [scenario_event_1, scenario_event_2]) < 2 ^ 63 \<and>
   sum_list (map Clicks [scenario_event_1, scenario_event_2]) < 2 ^ 63 \<and>
   sum_list (map Conversions [scenario_event_1, scenario_event_2]) < 2 ^ 63 \<and>
   (\<exists>r. mv_select_list 1704240000 (campaign_1, 19723, ''meta'', ''all'')
           [scenario_event_1, scenario_event_2] = Some r \<and>
        impressions r = 1500 \<and> clicks r = 75 \<and> spend r = 75 \<and> revenue r = 150 \<and>
        ctr r = 1 / 20 \<and> cpc r = 1 \<and> cpa r = 0 \<and> roas r = 2 \<and> conversion_rate r = 0)"
proof -
  let ?g = "[scenario_event_1, scenario_event_2]"
  have prem: "(\<forall>e \<in> set ?g. 0 \<le> Impressions e \<and> 0 \<le> Clicks e \<and> 0 \<le> Conversions e \<and> 0 \<le> Spend e) \<and>
      sum_list (map Impressions ?g) < 2 ^ 63 \<and> sum_list (map Clicks ?g) < 2 ^ 63 \<and>
      sum_list (map Conversions ?g) < 2 ^ 63"
    by (simp add: scenario_event_1_def scenario_event_2_def)
  from ratios_guarded[of 1704240000 "(campaign_1, 19723, ''meta'', ''all'')" ?g] prem
  obtain r where r: "mv_select_list 1704240000 (campaign_1, 19723, ''meta'', ''all'') ?g = Some r"
    and q: "impressions r = sum_list (map Impressions ?g)"
        "clicks r = sum_list (map Clicks ?g)"
        "spend r = sum_list (map Spend ?g)"
        "revenue r = sum_list (map Revenue ?g)"
        "ctr r = spec_ratio (real_of_int (sum_list (map Clicks ?g))) (real_of_int (sum_list (map Impressions ?g)))"
        "cpc r = spec_ratio (sum_list (map Spend ?g)) (real_of_int (sum_list (map Clicks ?g)))"
        "cpa r = spec_ratio (sum_list (map Spend ?g)) (real_of_int (sum_list (map Conversions ?g)))"
        "roas r = spec_ratio (sum_list (map Revenue ?g)) (sum_list (map Spend ?g))"
        "conversion_rate r = spec_ratio (real_of_int (sum_list (map Conversions ?g))) (real_of_int (sum_list (map Clicks ?g)))"
    by blast
  have vals: "impressions r = 1500 \<and> clicks r = 75 \<and> spend r = 75 \<and> revenue r = 150 \<and>
        ctr r = 1 / 20 \<and> cpc r = 1 \<and> cpa r = 0 \<and> roas r = 2 \<and> conversion_rate r = 0"
    unfolding q by (simp add: spec_ratio_def scenario_event_1_def scenario_event_2_def)
  show ?thesis using prem r vals by (simp add: list_all_iff)
qed

section \<open>Merging and reaggregation: helper facts\<close>

lemma replacing_merge_snoc:
  "replacing_merge key ver (rows @ [r]) = upsert key ver r (replacing_merge key ver rows)"
  by (simp add: replacing_merge_def)

lemma filter_upsert:
  "filter (\<lambda>x. key x = k) (upsert key ver r acc) =
     (if key r = k
      then (case filter (\<lambda>x. key x = k) acc of
              [] \<Rightarrow> [r]
            | y # ys \<Rightarrow> (if ver y \<le> ver r then r else y) # ys)
      else filter (\<lambda>x. key x = k) acc)"
  by (induction acc) auto

text \<open>After a complete merge a key has at most one row: the winner of its rows, taken
  in the order of their insertion.\<close>

lemma filter_replacing_merge:
  "filter (\<lambda>x. key x = k) (replacing_merge key ver rows) =
     (case filter (\<lambda>x. key x = k) rows of
        [] \<Rightarrow> []
      | y # ys \<Rightarrow> [foldl (\<lambda>w x. if ver w \<le> ver x then x else w) y ys])"
proof (induction rows rule: rev_induct)
  case Nil
  then show ?case by (simp add: replacing_merge_def)
next
  case (snoc x xs)
  show ?case
  proof (cases "key x = k")
    case True
    then show ?thesis
      by (cases "filter (\<lambda>x. key x = k) xs")
         (simp_all add: replacing_merge_snoc filter_upsert snoc.IH)
  next
    case False
    then show ?thesis
      by (simp add: replacing_merge_snoc filter_upsert snoc.IH)
  qed
qed

lemma TriggerReaggregation_tables:
  "campaign_events (snd (TriggerReaggregation env s c a b)) = campaign_events s \<and>
   campaign_insights (snd (TriggerReaggregation env s c a b)) =
     campaign_insights s @
       (if exec_ok env
        then aggregate_rows (insert_now env) (filter (reaggregation_where c a b) (campaign_events s))
        else [])"
  by (simp add: TriggerReaggregation_def reaggregation_rows Let_def)

lemma scenario_group_keys:
  "group_keys [scenario_event_1, scenario_event_2] = [(campaign_1, 19723, ''meta'', ''all'')]"
  by (simp add: group_keys_def group_key_def toDate_def scenario_event_1_def scenario_event_2_def)

lemma scenario_bucket_rows:
  "bucket_row t (campaign_1, 19723, ''meta'', ''all'') [scenario_event_1] = scenario_row 1000 50 50 100 t"
  "bucket_row t (campaign_1, 19723, ''meta'', ''all'') [scenario_event_2] = scenario_row 500 25 25 50 t"
  "bucket_row t (campaign_1, 19723, ''meta'', ''all'') [scenario_event_1, scenario_event_2] =
     scenario_row 1500 75 75 150 t"
  by (simp_all add: bucket_row_def guarded_quotient_def sum_int64_def sum_float64_def wrap64_def
      scenario_row_def scenario_event_1_def scenario_event_2_def)

lemma scenario_single_rows:
  "aggregate_rows t [scenario_event_1] = [scenario_row 1000 50 50 100 t]"
  "aggregate_rows t [scenario_event_2] = [scenario_row 500 25 25 50 t]"
proof -
  have k: "group_key scenario_event_1 = (campaign_1, 19723, ''meta'', ''all'')"
    "group_key scenario_event_2 = (campaign_1, 19723, ''meta'', ''all'')"
    by (simp_all add: group_key_def toDate_def scenario_event_1_def scenario_event_2_def)
  show "aggregate_rows t [scenario_event_1] = [scenario_row 1000 50 50 100 t]"
    "aggregate_rows t [scenario_event_2] = [scenario_row 500 25 25 50 t]"
    by (simp_all add: aggregate_rows_single k scenario_bucket_rows)
qed

lemma scenario_store_all: "store_all empty_system scenario_appends = Inr after_scenario_appends"
  by (simp add: scenario_appends_def storeEvent_ok scenario_single_rows empty_system_def
      after_scenario_appends_def)

lemma scenario_group_rows:
  "group_rows (campaign_1, 19723, ''meta'', ''all'') [scenario_event_1, scenario_event_2] =
     [scenario_event_1, scenario_event_2]"
  by (simp add: group_rows_def group_key_def toDate_def scenario_event_1_def scenario_event_2_def)

lemma store_all_tables:
  "\<exists>s'. store_all s xs = Inr s' \<and>
     campaign_events s' = campaign_events s @ map snd xs \<and>
     campaign_insights s' = campaign_insights s @ concat (map (\<lambda>x. aggregate_rows (fst x) [snd x]) xs) \<and>
     redis s' = redis s"
proof (induction xs arbitrary: s)
  case Nil
  then show ?case by simp
next
  case (Cons x xs)
  obtain t e where x: "x = (t, e)" by (cases x)
  let ?s1 = "s\<lparr>campaign_events := campaign_events s @ [e],
            campaign_insights := campaign_insights s @ aggregate_rows t [e]\<rparr>"
  from Cons.IH[of ?s1] obtain s' where s': "store_all ?s1 xs = Inr s'"
    "campaign_events s' = campaign_events ?s1 @ map snd xs"
    "campaign_insights s' = campaign_insights ?s1 @ concat (map (\<lambda>x. aggregate_rows (fst x) [snd x]) xs)"
    "redis s' = redis ?s1"
    by blast
  have "store_all s (x # xs) = Inr s'" using s'(1) by (simp add: x storeEvent_ok)
  then show ?case using s'(2,3,4) by (simp add: x)
qed

section \<open>C3: repeated reaggregation\<close>

lemma lost_mark_process:
  "fst (snd (ProcessEvent lost_mark_env empty_system (Some scenario_event_1))) =
     \<lparr>campaign_events = [first_delivery],
      campaign_insights = [scenario_row 1000 50 50 100 1704153603],
      redis = []\<rparr>"
  by (simp add: ProcessEvent_def IsDeduplicationKeyProcessed_def
      MarkDeduplicationKeyProcessed_def storeEvent_def
      mv_campaign_daily_aggregation_def mv_select_list_def group_keys_def group_rows_def group_key_def
      sum_int64_def sum_float64_def wrap64_def divide_checked_def toDate_def
      validateEvent_def Let_def lost_mark_env_def calm_env_def empty_system_def scenario_event_1_def
      first_delivery_def scenario_row_def campaign_1_def uuid_Nil_def IsZero_def zero_time_def)

lemma redelivery_process:
  "fst (snd (ProcessEvent redelivery_env
       \<lparr>campaign_events = [first_delivery],
        campaign_insights = [scenario_row 1000 50 50 100 1704153603],
        redis = []\<rparr> (Some scenario_event_1))) = after_redelivery"
  by (simp add: ProcessEvent_def IsDeduplicationKeyProcessed_def
      MarkDeduplicationKeyProcessed_def redis_set_def storeEvent_def
      mv_campaign_daily_aggregation_def mv_select_list_def group_keys_def group_rows_def group_key_def
      sum_int64_def sum_float64_def wrap64_def divide_checked_def toDate_def
      validateEvent_def Let_def redelivery_env_def calm_env_def scenario_event_1_def
      first_delivery_def redelivery_def after_redelivery_def scenario_row_def campaign_1_def uuid_Nil_def
      IsZero_def zero_time_def)

lemma duplicate_rows_aggregate:
  "aggregate_rows t (filter (reaggregation_where campaign_1 1704067200 1704067200) [first_delivery, redelivery]) =
     [scenario_row 2000 100 100 200 t]"
  "aggregate_rows t (filter (reaggregation_where campaign_1 1704067200 1704067200) [redelivery]) =
     [scenario_row 1000 50 50 100 t]"
  by (simp_all add: reaggregation_where_def aggregate_rows_def group_keys_def
        group_rows_def group_key_def toDate_def bucket_row_def guarded_quotient_def sum_int64_def
        sum_float64_def wrap64_def scenario_row_def first_delivery_def redelivery_def scenario_event_1_def)

lemma duplicate_rows_merge: "final_events [first_delivery, redelivery] = [redelivery]"
  by (simp add: final_events_def replacing_merge_def event_key_def first_delivery_def redelivery_def)

text \<open>
  C3 does not hold of the code. The reaggregation query reads \<open>campaign_events\<close> as it
  is stored, without \<open>FINAL\<close>, so its sums depend on whether ClickHouse has already
  merged the rows of one key. A first delivery whose mark in the Deduplication Store
  fails and the redelivery of the same message store the first scenario event twice
  under one key, which is one event after the merge. A reaggregation of its day then
  writes an Aggregate Row with 2000 impressions, and a second one, after the background
  merge and with no event appended in between, a row with 1000.
\<close>

theorem reaggregation_changes_after_merge:
  "fst (snd (ProcessEvent redelivery_env
       (fst (snd (ProcessEvent lost_mark_env empty_system (Some scenario_event_1))))
       (Some scenario_event_1))) = after_redelivery \<and>
   final_events (campaign_events after_redelivery) = [redelivery] \<and>
   campaign_insights (snd (TriggerReaggregation (calm_reaggregation_env 1704240000)
       after_redelivery campaign_1 1704067200 1704067200)) =
     campaign_insights after_redelivery @ [scenario_row 2000 100 100 200 1704240000] \<and>
   campaign_insights (snd (TriggerReaggregation (calm_reaggregation_env 1704240060)
       (merge_campaign_events
          (snd (TriggerReaggregation (calm_reaggregation_env 1704240000)
             after_redelivery campaign_1 1704067200 1704067200)))
       campaign_1 1704067200 1704067200)) =
     campaign_insights after_redelivery @
       [scenario_row 2000 100 100 200 1704240000, scenario_row 1000 50 50 100 1704240060]"
proof -
  let ?s1 = "snd (TriggerReaggregation (calm_reaggregation_env 1704240000)
       after_redelivery campaign_1 1704067200 1704067200)"
  have ev: "campaign_events after_redelivery = [first_delivery, redelivery]"
    by (simp add: after_redelivery_def)
  have ok: "exec_ok (calm_reaggregation_env t)" "insert_now (calm_reaggregation_env t) = t" for t
    by (simp_all add: calm_reaggregation_env_def)
  have a: "fst (snd (ProcessEvent redelivery_env
       (fst (snd (ProcessEvent lost_mark_env empty_system (Some scenario_event_1))))
       (Some scenario_event_1))) = after_redelivery"
    by (simp only: lost_mark_process redelivery_process)
  have b: "final_events (campaign_events after_redelivery) = [redelivery]"
    by (simp only: ev duplicate_rows_merge)
  have s1: "campaign_events ?s1 = [first_delivery, redelivery]"
    "campaign_insights ?s1 = campaign_insights after_redelivery @ [scenario_row 2000 100 100 200 1704240000]"
    using TriggerReaggregation_tables[of "calm_reaggregation_env 1704240000" after_redelivery
        campaign_1 1704067200 1704067200]
    by (simp_all only: ev ok duplicate_rows_aggregate if_True)
  have m: "campaign_events (merge_campaign_events ?s1) = [redelivery]"
    "campaign_insights (merge_campaign_events ?s1) =
       campaign_insights after_redelivery @ [scenario_row 2000 100 100 200 1704240000]"
    by (simp_all add: merge_campaign_events_def s1 duplicate_rows_merge)
  have d: "campaign_insights (snd (TriggerReaggregation (calm_reaggregation_env 1704240060)
       (merge_campaign_events ?s1) campaign_1 1704067200 1704067200)) =
     campaign_insights after_redelivery @
       [scenario_row 2000 100 100 200 1704240000, scenario_row 1000 50 50 100 1704240060]"
    using TriggerReaggregation_tables[of "calm_reaggregation_env 1704240060" "merge_campaign_events ?s1"
        campaign_1 1704067200 1704067200]
    by (simp only: m ok duplicate_rows_aggregate if_True) simp
  show ?thesis using a b s1(2) d by blast
qed

section \<open>C1: the incremental path\<close>

text \<open>
  C1 does not hold of the code. The materialized view aggregates the block of rows of
  one \<open>INSERT\<close>, and \<open>storeEvent\<close> inserts one event at a time; the target table keeps
  the latest row of a key. After the two scenario events are appended, the table
  holds one row per event, the merged table the row of the second event alone
  (500 impressions), while the view's query over the two stored events yields their
  sums (1500 impressions).
\<close>

theorem incremental_row_is_of_last_insert_only:
  "store_all empty_system scenario_appends = Inr after_scenario_appends \<and>
   campaign_events after_scenario_appends = [scenario_event_1, scenario_event_2] \<and>
   campaign_insights after_scenario_appends =
     [scenario_row 1000 50 50 100 1704153603, scenario_row 500 25 25 50 1704153660] \<and>
   final_insights (campaign_insights after_scenario_appends) = [scenario_row 500 25 25 50 1704153660] \<and>
   mv_campaign_daily_aggregation 1704153660 (campaign_events after_scenario_appends) =
     Some [scenario_row 1500 75 75 150 1704153660]"
proof -
  have k: "insight_key (scenario_row i c s r t) = (campaign_1, 19723, ''meta'', ''all'')" for i c s r t
    by (simp add: insight_key_def scenario_row_def)
  have u: "updated_at (scenario_row i c s r t) = t" for i c s r t
    by (simp add: scenario_row_def)
  have f: "final_insights [scenario_row 1000 50 50 100 1704153603, scenario_row 500 25 25 50 1704153660] =
      [scenario_row 500 25 25 50 1704153660]"
    by (simp add: final_insights_def replacing_merge_def k u)
  have m: "aggregate_rows 1704153660 [scenario_event_1, scenario_event_2] = [scenario_row 1500 75 75 150 1704153660]"
    by (simp add: aggregate_rows_def scenario_group_keys scenario_group_rows scenario_bucket_rows)
  show ?thesis
    using f m by (simp add: scenario_store_all after_scenario_appends_def mv_rows)
qed

section \<open>C2: appending an event twice\<close>

text \<open>
  C2, as stated, fails. Two appends with the same \<open>deduplicationKey\<close> need not have the
  same \<open>(campaignId, eventTime, deduplicationKey)\<close>: with different event times both
  rows survive the merge. And while two rows of the same key are both stored, the
  reaggregation query, which reads the table as stored, counts the event twice.
\<close>

theorem same_dedup_key_two_rows_counterexample:
  "DeduplicationKey first_delivery = DeduplicationKey second_fetch \<and>
   ProcessedAt first_delivery < ProcessedAt second_fetch \<and>
   final_events [first_delivery, second_fetch] = [first_delivery, second_fetch] \<and>
   event_key first_delivery = event_key redelivery \<and>
   final_events [first_delivery, redelivery] = [redelivery] \<and>
   reaggregation_query 1704240000 campaign_1 1704067200 1704067200 [first_delivery, redelivery] =
     Some [scenario_row 2000 100 100 200 1704240000]"
proof -
  have a: "DeduplicationKey first_delivery = DeduplicationKey second_fetch \<and>
     ProcessedAt first_delivery < ProcessedAt second_fetch \<and>
     event_key first_delivery = event_key redelivery"
    by (simp add: first_delivery_def second_fetch_def redelivery_def event_key_def)
  have b: "final_events [first_delivery, second_fetch] = [first_delivery, second_fetch]"
    by (simp add: final_events_def replacing_merge_def event_key_def first_delivery_def second_fetch_def
        scenario_event_1_def)
  have c: "final_events [first_delivery, redelivery] = [redelivery]"
    by (simp add: final_events_def replacing_merge_def event_key_def first_delivery_def redelivery_def)
  have d: "reaggregation_query 1704240000 campaign_1 1704067200 1704067200 [first_delivery, redelivery] =
     Some [scenario_row 2000 100 100 200 1704240000]"
    by (simp add: reaggregation_rows reaggregation_where_def aggregate_rows_def group_keys_def
        group_rows_def group_key_def toDate_def bucket_row_def guarded_quotient_def sum_int64_def
        sum_float64_def wrap64_def scenario_row_def first_delivery_def redelivery_def scenario_event_1_def)
  show ?thesis using a b c d by blast
qed

text \<open>
  C2, amended: appending two events with the same
  \<open>(campaignId, eventTime, deduplicationKey)\<close> and different \<open>processedAt\<close>, in either
  order, always succeeds in the model and leaves exactly one row of that key in the
  merged event log; when no earlier row has the key, that row is the append with the
  greater \<open>processedAt\<close>.
\<close>

theorem same_key_appends_leave_one_row:
  assumes key: "event_key e1 = event_key e2" and ver: "ProcessedAt e1 < ProcessedAt e2"
  shows "\<exists>s12 s21.
      store_all s [(t1, e1), (t2, e2)] = Inr s12 \<and> store_all s [(t1, e2), (t2, e1)] = Inr s21 \<and>
      campaign_events s12 = campaign_events s @ [e1, e2] \<and>
      campaign_events s21 = campaign_events s @ [e2, e1] \<and>
      length (filter (\<lambda>x. event_key x = event_key e1) (final_events (campaign_events s12))) = 1 \<and>
      length (filter (\<lambda>x. event_key x = event_key e1) (final_events (campaign_events s21))) = 1 \<and>
      ((\<forall>x \<in> set (campaign_events s). event_key x \<noteq> event_key e1) \<longrightarrow>
         filter (\<lambda>x. event_key x = event_key e1) (final_events (campaign_events s12)) = [e2] \<and>
         filter (\<lambda>x. event_key x = event_key e1) (final_events (campaign_events s21)) = [e2])"
proof -
  let ?L = "campaign_events s"
  let ?K = "\<lambda>x. event_key x = event_key e1"
  obtain s12 where s12: "store_all s [(t1, e1), (t2, e2)] = Inr s12" "campaign_events s12 = ?L @ [e1, e2]"
    using store_all_tables[of s "[(t1, e1), (t2, e2)]"] by auto
  obtain s21 where s21: "store_all s [(t1, e2), (t2, e1)] = Inr s21" "campaign_events s21 = ?L @ [e2, e1]"
    using store_all_tables[of s "[(t1, e2), (t2, e1)]"] by auto
  have one: "length (filter ?K (final_events (?L @ rows))) = 1" if "\<exists>x \<in> set rows. ?K x" for rows
  proof -
    from that have "filter ?K (?L @ rows) \<noteq> []" by (auto simp: filter_empty_conv)
    then show ?thesis
      unfolding final_events_def filter_replacing_merge
      by (cases "filter ?K (?L @ rows)") simp_all
  qed
  have fresh: "filter ?K (final_events (?L @ [e1, e2])) = [e2] \<and>
               filter ?K (final_events (?L @ [e2, e1])) = [e2]"
    if "\<forall>x \<in> set ?L. event_key x \<noteq> event_key e1"
  proof -
    have "filter ?K ?L = []" using that by (simp add: filter_empty_conv)
    then show ?thesis
      unfolding final_events_def filter_replacing_merge using key ver by simp
  qed
  show ?thesis
    apply (rule exI[of _ s12], rule exI[of _ s21])
    using s12 s21 one[of "[e1, e2]"] one[of "[e2, e1]"] fresh by simp
qed

theorem same_key_appends_leave_one_row_witness:
  "event_key first_delivery = event_key redelivery \<and>
   ProcessedAt first_delivery < ProcessedAt redelivery \<and>
   campaign_events empty_system = [] \<and>
   (\<exists>s12 s21.
      store_all empty_system [(1704153603, first_delivery), (1704153701, redelivery)] = Inr s12 \<and>
      store_all empty_system [(1704153603, redelivery), (1704153701, first_delivery)] = Inr s21 \<and>
      filter (\<lambda>x. event_key x = event_key first_delivery) (final_events (campaign_events s12)) = [redelivery] \<and>
      filter (\<lambda>x. event_key x = event_key first_delivery) (final_events (campaign_events s21)) = [redelivery])"
proof -
  have p: "event_key first_delivery = event_key redelivery" "ProcessedAt first_delivery < ProcessedAt redelivery"
    by (simp_all add: first_delivery_def redelivery_def event_key_def)
  have e: "\<forall>x \<in> set (campaign_events empty_system). event_key x \<noteq> event_key first_delivery"
    by (simp add: empty_system_def)
  have n: "campaign_events empty_system = []" by (simp add: empty_system_def)
  from same_key_appends_leave_one_row[OF p, of empty_system 1704153603 1704153701] e p n
  show ?thesis by blast
qed

end
